theory Spec2Isabelle
  imports Main "HOL-Library.Word"
begin

unbundle bit_operations_syntax

section \<open>The cache key: SHA-1 of path and raw query, in lowercase hex\<close>

text \<open>
  The handler computes \<^verbatim>\<open>sha1.Sum([]byte(r.URL.Path + r.URL.RawQuery))\<close> and encodes it with
  \<^verbatim>\<open>hex.EncodeToString\<close>. Go strings are byte sequences, and so is \<^typ>\<open>string\<close>.
  SHA-1 is written out as FIPS 180 defines it: padding to a multiple of 64 bytes with the
  bit length in the last 8 bytes, big-endian 32-bit words, an 80-word message schedule and
  80 rounds per block.
\<close>

definition be64 :: "nat \<Rightarrow> string" where
  "be64 n =
     map (\<lambda>i. char_of (uint (drop_bit (8 * i) (of_nat n :: 64 word)))) [7, 6, 5, 4, 3, 2, 1, 0]"

definition sha1_pad :: "string \<Rightarrow> string" where
  "sha1_pad msg =
     msg @ [char_of (128 :: nat)]
       @ replicate ((119 - length msg mod 64) mod 64) (char_of (0 :: nat))
       @ be64 (8 * length msg)"

fun be_words :: "string \<Rightarrow> 32 word list" where
  "be_words (a # b # c # d # r) =
     (push_bit 24 (of_char a) OR push_bit 16 (of_char b) OR push_bit 8 (of_char c) OR of_char d)
       # be_words r"
| "be_words _ = []"

definition blocks :: "32 word list \<Rightarrow> 32 word list list" where
  "blocks ws = map (\<lambda>i. take 16 (drop (16 * i) ws)) [0 ..< length ws div 16]"

fun schedule :: "nat \<Rightarrow> 32 word list \<Rightarrow> 32 word list" where
  "schedule 0 w = w"
| "schedule (Suc n) w =
     (let k = length w
      in schedule n
           (w @ [word_rotl 1 (w ! (k - 3) XOR w ! (k - 8) XOR w ! (k - 14) XOR w ! (k - 16))]))"

type_synonym sha1_state = "32 word \<times> 32 word \<times> 32 word \<times> 32 word \<times> 32 word"

definition sha1_round :: "32 word list \<Rightarrow> sha1_state \<Rightarrow> nat \<Rightarrow> sha1_state" where
  "sha1_round w s i =
     (case s of (a, b, c, d, e) \<Rightarrow>
        let f = (if i < 20 then (b AND c) OR (NOT b AND d)
                 else if i < 40 then b XOR c XOR d
                 else if i < 60 then (b AND c) OR (b AND d) OR (c AND d)
                 else b XOR c XOR d);
            k = (if i < 20 then 0x5A827999
                 else if i < 40 then 0x6ED9EBA1
                 else if i < 60 then 0x8F1BBCDC
                 else 0xCA62C1D6);
            t = word_rotl 5 a + f + e + w ! i + k
        in (t, a, word_rotl 30 b, c, d))"

definition sha1_block :: "sha1_state \<Rightarrow> 32 word list \<Rightarrow> sha1_state" where
  "sha1_block h blk =
     (case h of (h0, h1, h2, h3, h4) \<Rightarrow>
        case foldl (sha1_round (schedule 64 blk)) h [0 ..< 80] of (a, b, c, d, e) \<Rightarrow>
          (h0 + a, h1 + b, h2 + c, h3 + d, h4 + e))"

definition word_bytes :: "32 word \<Rightarrow> string" where
  "word_bytes x = map (\<lambda>i. char_of (uint (drop_bit (8 * i) x))) [3, 2, 1, 0]"

definition sha1_Sum :: "string \<Rightarrow> string" where
  "sha1_Sum msg =
     (case foldl sha1_block (0x67452301, 0xEFCDAB89, 0x98BADCFE, 0x10325476, 0xC3D2E1F0)
             (blocks (be_words (sha1_pad msg))) of
        (h0, h1, h2, h3, h4) \<Rightarrow> concat (map word_bytes [h0, h1, h2, h3, h4]))"

text \<open>\<^verbatim>\<open>hex.EncodeToString\<close>: two digits of \<^verbatim>\<open>"0123456789abcdef"\<close> per byte, high nibble first.\<close>

definition hex_digit :: "nat \<Rightarrow> char" where
  "hex_digit n = ''0123456789abcdef'' ! n"

definition hex_byte :: "char \<Rightarrow> string" where
  "hex_byte c = [hex_digit (of_char c div 16), hex_digit (of_char c mod 16)]"

definition hex_EncodeToString :: "string \<Rightarrow> string" where
  "hex_EncodeToString src = concat (map hex_byte src)"

text \<open>Lines 122-123 of the handler: the file name stem of both cache files.\<close>

definition fingerprint :: "string \<Rightarrow> string \<Rightarrow> string" where
  "fingerprint path rawQuery = hex_EncodeToString (sha1_Sum (path @ rawQuery))"

section \<open>The world outside the handler\<close>

text \<open>
  Go's \<^verbatim>\<open>error\<close> values are carried by their message; \<^verbatim>\<open>nil\<close> is \<open>None\<close> (or the
  \<open>Inr\<close> side of a result).
\<close>

type_synonym error = string

subsection \<open>Files\<close>

text \<open>
  The file system maps a path to a file: its bytes and whether the process may open it for
  reading and for writing. \<^verbatim>\<open>os.Stat\<close> fails on a path with no file; \<^verbatim>\<open>os.Open\<close> fails
  there and on a file the process may not read.
\<close>

record disk_file =
  content :: string
  may_read :: bool
  may_write :: bool

type_synonym filesystem = "string \<rightharpoonup> disk_file"

text \<open>An open read handle (\<^verbatim>\<open>*os.File\<close> as \<^verbatim>\<open>io.ReadCloser\<close>): which file, and the bytes it yields.\<close>

record handle =
  h_name :: string
  h_bytes :: string

definition os_Stat :: "filesystem \<Rightarrow> string \<Rightarrow> error option" where
  "os_Stat fs name =
     (case fs name of
        None \<Rightarrow> Some (''stat '' @ name @ '': no such file or directory'')
      | Some f \<Rightarrow> None)"

definition os_Open :: "filesystem \<Rightarrow> string \<Rightarrow> error + handle" where
  "os_Open fs name =
     (case fs name of
        None \<Rightarrow> Inl (''open '' @ name @ '': no such file or directory'')
      | Some f \<Rightarrow>
          if may_read f then Inr \<lparr>h_name = name, h_bytes = content f\<rparr>
          else Inl (''open '' @ name @ '': permission denied''))"

text \<open>
  \<^verbatim>\<open>os.OpenFile(name, os.O_RDWR|os.O_CREATE, 0644)\<close>: an existing file is opened as it is
  (no \<^verbatim>\<open>O_TRUNC\<close>) when the process may read and write it; a missing one is created empty
  when the directory allows it (\<open>can_create\<close>).
\<close>

definition os_OpenFile :: "(string \<Rightarrow> bool) \<Rightarrow> filesystem \<Rightarrow> string \<Rightarrow> error + filesystem" where
  "os_OpenFile can_create fs name =
     (case fs name of
        Some f \<Rightarrow>
          if may_read f \<and> may_write f then Inr fs
          else Inl (''open '' @ name @ '': permission denied'')
      | None \<Rightarrow>
          if can_create name
          then Inr (fs(name \<mapsto> \<lparr>content = [], may_read = True, may_write = True\<rparr>))
          else Inl (''open '' @ name @ '': no such file or directory''))"

text \<open>
  \<^verbatim>\<open>io.Copy(origFile, res.Body)\<close> writes from offset 0 of the freshly opened file; bytes of
  an older, longer file stay behind the written ones.
\<close>

definition write_from_start :: "string \<Rightarrow> string \<Rightarrow> filesystem \<Rightarrow> filesystem" where
  "write_from_start name bytes fs =
     (case fs name of
        None \<Rightarrow> fs
      | Some f \<Rightarrow> fs(name \<mapsto> f\<lparr>content := bytes @ drop (length bytes) (content f)\<rparr>))"

text \<open>
  \<^verbatim>\<open>filepath.Ext\<close>: scanning from the end, the suffix from the last dot of the last path
  element, or the empty string.
\<close>

fun ext_scan :: "string \<Rightarrow> string \<Rightarrow> string" where
  "ext_scan [] acc = []"
| "ext_scan (c # cs) acc =
     (if c = CHR ''/'' then []
      else if c = CHR ''.'' then c # acc
      else ext_scan cs (c # acc))"

definition filepath_Ext :: "string \<Rightarrow> string" where
  "filepath_Ext path = ext_scan (rev path) []"

subsection \<open>URLs, requests and the origin\<close>

record url =
  Scheme :: string
  Host :: string
  Path :: string
  RawQuery :: string

text \<open>\<^verbatim>\<open>url.Values\<close> is \<^verbatim>\<open>map[string][]string\<close>; \<^verbatim>\<open>Get\<close> is the first value or the empty string.\<close>

type_synonym url_values = "string \<rightharpoonup> string list"

definition Values_Get :: "url_values \<Rightarrow> string \<Rightarrow> string" where
  "Values_Get v key = (case v key of None \<Rightarrow> [] | Some [] \<Rightarrow> [] | Some (x # xs) \<Rightarrow> x)"

text \<open>
  What \<^verbatim>\<open>client.Get\<close> hands back when it does not fail: the status code, the bytes the body
  delivers, and the error that ends the body early, if any.
\<close>

record upstream =
  StatusCode :: nat
  Body :: string
  BodyErr :: "error option"

subsection \<open>Effects\<close>

datatype level = INFO | WARN | ERRO

datatype event =
    RLock nat
  | RUnlock nat
  | ClientGet string
  | OpenFile string
  | Exec string "string list"
  | Printf level string

record world =
  files :: filesystem
  trace :: "event list"

definition emit :: "event \<Rightarrow> world \<Rightarrow> world" where
  "emit e w = w\<lparr>trace := trace w @ [e]\<rparr>"

text \<open>
  The collaborators the handler calls and the global \<^verbatim>\<open>cacheDir\<close>. The library functions
  \<^verbatim>\<open>filepath.Join\<close>, \<^verbatim>\<open>url.ParseQuery\<close> (behind \<^verbatim>\<open>r.URL.Query()\<close>), \<^verbatim>\<open>(*url.URL).String\<close> and
  \<^verbatim>\<open>http.DetectContentType\<close>, the HTTP client, and the \<^verbatim>\<open>cwebp\<close> program, which maps its
  arguments and the file system to its combined output, its error and the file system it
  leaves (a timeout is one of its errors).
\<close>

record env =
  cacheDir :: string
  filepath_Join :: "string \<Rightarrow> string \<Rightarrow> string"
  ParseQuery :: "string \<Rightarrow> url_values"
  URL_String :: "url \<Rightarrow> string"
  DetectContentType :: "string \<Rightarrow> string"
  client_Get :: "string \<Rightarrow> error + upstream"
  can_create :: "string \<Rightarrow> bool"
  cwebp :: "string list \<Rightarrow> filesystem \<Rightarrow> (string \<times> error option) \<times> filesystem"

subsection \<open>The response writer\<close>

text \<open>
  \<^verbatim>\<open>http.ResponseWriter\<close> as net/http documents it. The handler edits the header map
  \<open>header\<close>. \<^verbatim>\<open>WriteHeader\<close> fixes the status and the header that is sent, once; a later
  call is ignored, and so is every later change of the map. \<^verbatim>\<open>Write\<close> calls
  \<^verbatim>\<open>WriteHeader(200)\<close> first when nothing is fixed yet, adding a \<^verbatim>\<open>Content-Type\<close> detected
  from the first 512 bytes when the map has none; then it sends the bytes, or returns an
  error when the connection does not take them (\<open>conn_ok\<close> is false: the client is gone, the
  write deadline has passed). When the handler returns with nothing fixed, the server
  sends status 200 with the map as it is (\<open>finishRequest\<close>).
\<close>

type_synonym header = "(string \<times> string) list"

record response =
  header :: header
  wrote :: "(nat \<times> header) option"
  body :: string
  conn_ok :: bool

definition to_upper :: "char \<Rightarrow> char" where
  "to_upper c = (let n = (of_char c :: nat) in if 97 \<le> n \<and> n \<le> 122 then char_of (n - 32) else c)"

definition to_lower :: "char \<Rightarrow> char" where
  "to_lower c = (let n = (of_char c :: nat) in if 65 \<le> n \<and> n \<le> 90 then char_of (n + 32) else c)"

fun canonical :: "bool \<Rightarrow> string \<Rightarrow> string" where
  "canonical up [] = []"
| "canonical up (c # cs) = (if up then to_upper c else to_lower c) # canonical (c = CHR ''-'') cs"

definition CanonicalMIMEHeaderKey :: "string \<Rightarrow> string" where
  "CanonicalMIMEHeaderKey k = canonical True k"

definition Header_Del :: "string \<Rightarrow> header \<Rightarrow> header" where
  "Header_Del k h = filter (\<lambda>kv. fst kv \<noteq> CanonicalMIMEHeaderKey k) h"

definition Header_Add :: "string \<Rightarrow> string \<Rightarrow> header \<Rightarrow> header" where
  "Header_Add k v h = h @ [(CanonicalMIMEHeaderKey k, v)]"

definition Header_Set :: "string \<Rightarrow> string \<Rightarrow> header \<Rightarrow> header" where
  "Header_Set k v h = Header_Del k h @ [(CanonicalMIMEHeaderKey k, v)]"

definition WriteHeader :: "nat \<Rightarrow> response \<Rightarrow> response" where
  "WriteHeader code rw = (if wrote rw = None then rw\<lparr>wrote := Some (code, header rw)\<rparr> else rw)"

definition Write :: "env \<Rightarrow> response \<Rightarrow> string \<Rightarrow> response \<times> error option" where
  "Write env rw bytes =
     (let rw1 =
            (if wrote rw = None
             then rw\<lparr>wrote := Some (200,
                    if map_of (header rw) ''Content-Type'' = None \<and> bytes \<noteq> []
                    then header rw @ [(''Content-Type'', DetectContentType env (take 512 bytes))]
                    else header rw)\<rparr>
             else rw)
      in if bytes = [] then (rw1, None)
         else if conn_ok rw1 then (rw1\<lparr>body := body rw1 @ bytes\<rparr>, None)
         else (rw1, Some ''write: broken pipe''))"

definition finishRequest :: "response \<Rightarrow> response" where
  "finishRequest rw = WriteHeader 200 rw"

text \<open>\<^verbatim>\<open>io.Copy(rw, r)\<close>: an empty source leads to no \<^verbatim>\<open>Write\<close> at all.\<close>

definition io_Copy :: "env \<Rightarrow> response \<Rightarrow> handle \<Rightarrow> response \<times> error option" where
  "io_Copy env rw r = (if h_bytes r = [] then (rw, None) else Write env rw (h_bytes r))"

text \<open>
  \<^verbatim>\<open>http.Error\<close>: drops \<^verbatim>\<open>Content-Length\<close>, sets the plain-text content type and
  \<^verbatim>\<open>nosniff\<close>, writes the status, then prints the message and a newline.
\<close>

definition http_Error :: "env \<Rightarrow> response \<Rightarrow> string \<Rightarrow> nat \<Rightarrow> response" where
  "http_Error env rw msg code =
     (let h1 = Header_Del ''Content-Length'' (header rw);
          h2 = Header_Set ''Content-Type'' ''text/plain; charset=utf-8'' h1;
          h3 = Header_Set ''X-Content-Type-Options'' ''nosniff'' h2;
          rw1 = WriteHeader code (rw\<lparr>header := h3\<rparr>)
      in fst (Write env rw1 (msg @ [CHR 0x0A])))"

section \<open>The store: one read-write mutex per key\<close>

text \<open>
  \<^verbatim>\<open>store\<close> holds a \<^verbatim>\<open>sync.Map\<close> from keys to \<^verbatim>\<open>*sync.RWMutex\<close>. A mutex is known by its
  address, a number; \<open>next_mutex\<close> is the address the next \<^verbatim>\<open>&sync.RWMutex{}\<close> gets.
  \<^verbatim>\<open>LoadOrStore\<close> is atomic: whatever the goroutines do, the calls on one map happen one
  after the other, each on the map the one before left.
\<close>

record store =
  store_m :: "string \<rightharpoonup> nat"
  next_mutex :: nat

definition newStore :: "string \<Rightarrow> store" where
  "newStore dir = \<lparr>store_m = Map.empty, next_mutex = 0\<rparr>"

definition new_RWMutex :: "store \<Rightarrow> nat \<times> store" where
  "new_RWMutex fc = (next_mutex fc, fc\<lparr>next_mutex := Suc (next_mutex fc)\<rparr>)"

definition LoadOrStore :: "string \<Rightarrow> nat \<Rightarrow> store \<Rightarrow> (nat \<times> bool) \<times> store" where
  "LoadOrStore key val fc =
     (case store_m fc key of
        Some actual \<Rightarrow> ((actual, True), fc)
      | None \<Rightarrow> ((val, False), fc\<lparr>store_m := (store_m fc)(key \<mapsto> val)\<rparr>))"

text \<open>The first two lines of both \<^verbatim>\<open>get\<close> and \<^verbatim>\<open>set\<close>: the mutex of the key.\<close>

definition mutex_of :: "string \<Rightarrow> store \<Rightarrow> nat \<times> store" where
  "mutex_of key fc =
     (case new_RWMutex fc of (fresh, fc1) \<Rightarrow>
        case LoadOrStore key fresh fc1 of ((v, loaded), fc2) \<Rightarrow> (v, fc2))"

definition errKeyNotFound :: error where
  "errKeyNotFound = ''key not found''"

text \<open>
  \<^verbatim>\<open>RLock\<close> never waits here: no code of the program takes a write lock. The deferred
  \<^verbatim>\<open>RUnlock\<close> runs on every return.
\<close>

definition store_get :: "string \<Rightarrow> store \<Rightarrow> world \<Rightarrow> (error + handle) \<times> store \<times> world" where
  "store_get path fc w =
     (case mutex_of path fc of (mu, fc1) \<Rightarrow>
        (let w1 = emit (RLock mu) w
         in (case os_Stat (files w1) path of
               Some err \<Rightarrow> (Inl errKeyNotFound, fc1, emit (RUnlock mu) w1)
             | None \<Rightarrow>
                 (case os_Open (files w1) path of
                    Inl err \<Rightarrow> (Inl errKeyNotFound, fc1, emit (RUnlock mu) w1)
                  | Inr f \<Rightarrow> (Inr f, fc1, emit (RUnlock mu) w1)))))"

definition store_set ::
  "string \<Rightarrow> (world \<Rightarrow> error option \<times> world) \<Rightarrow> store \<Rightarrow> world \<Rightarrow> error option \<times> store \<times> world" where
  "store_set key f fc w =
     (case mutex_of key fc of (mu, fc1) \<Rightarrow>
        (let w1 = emit (RLock mu) w
         in (case f w1 of (r, w2) \<Rightarrow> (r, fc1, emit (RUnlock mu) w2))))"

text \<open>The mutexes a run of operations obtains, one per key named, in order.\<close>

fun mutexes_of :: "string list \<Rightarrow> store \<Rightarrow> nat list \<times> store" where
  "mutexes_of [] fc = ([], fc)"
| "mutexes_of (k # ks) fc =
     (case mutex_of k fc of (mu, fc1) \<Rightarrow>
        case mutexes_of ks fc1 of (mus, fc2) \<Rightarrow> (mu # mus, fc2))"

section \<open>The handler\<close>

record request =
  URL :: url

definition writeWebp :: "env \<Rightarrow> response \<Rightarrow> handle \<Rightarrow> response \<times> error option" where
  "writeWebp env rw r =
     (case io_Copy env rw r of
        (rw1, Some err) \<Rightarrow> (rw1, Some err)
      | (rw1, None) \<Rightarrow> (rw1\<lparr>header := Header_Add ''content-type'' ''image/webp'' (header rw1)\<rparr>, None))"

text \<open>
  The block the handler repeats on each failure after the parameter check:
  \<^verbatim>\<open>erro.Printf("%+v", err); http.Error(rw, err.Error(), http.StatusInternalServerError); return\<close>.
\<close>

definition server_error :: "env \<Rightarrow> error \<Rightarrow> response \<Rightarrow> store \<Rightarrow> world \<Rightarrow> response \<times> store \<times> world" where
  "server_error env err rw cache w = (http_Error env rw err 500, cache, emit (Printf ERRO err) w)"

text \<open>The closure given to \<^verbatim>\<open>cache.set\<close> (lines 185-192).\<close>

definition cwebp_args :: "string \<Rightarrow> string \<Rightarrow> string \<Rightarrow> string \<Rightarrow> string \<Rightarrow> string list" where
  "cwebp_args quality width height origPath webpPath =
     [''-quiet'', ''-q'', quality, ''-resize'', width, height, origPath, ''-o'', webpPath]"

definition transform :: "env \<Rightarrow> string list \<Rightarrow> world \<Rightarrow> error option \<times> world" where
  "transform env args w =
     (case cwebp env args (files w) of ((out, err), fs) \<Rightarrow>
        (let w1 = (emit (Exec ''cwebp'' args) w)\<lparr>files := fs\<rparr>
         in (case err of
               Some e \<Rightarrow> (Some (''failed to execute cwebp ('' @ out @ ''): '' @ e), w1)
             | None \<Rightarrow> (None, w1))))"

text \<open>Lines 199-212: reopen the cache file and write it to the response.\<close>

definition serve_fresh :: "env \<Rightarrow> string \<Rightarrow> response \<Rightarrow> store \<Rightarrow> world \<Rightarrow> response \<times> store \<times> world" where
  "serve_fresh env webpPath rw cache w =
     (case os_Open (files w) webpPath of
        Inl err \<Rightarrow> server_error env err rw cache w
      | Inr webpFile \<Rightarrow>
          (case writeWebp env rw webpFile of
             (rw1, Some err) \<Rightarrow> server_error env err rw1 cache w
           | (rw1, None) \<Rightarrow> (rw1, cache, w)))"

text \<open>Lines 137-213: everything after the cache lookup.\<close>

definition handler_miss ::
  "env \<Rightarrow> url \<Rightarrow> request \<Rightarrow> string \<Rightarrow> string \<Rightarrow> response \<Rightarrow> store \<Rightarrow> world
     \<Rightarrow> response \<times> store \<times> world" where
  "handler_miss env originalURL r filename webpPath rw cache w =
     (let query = ParseQuery env (RawQuery (URL r));
          urlQ = Values_Get query ''url''
      in if urlQ = [] then (http_Error env rw ''query `url` is emptry'' 400, cache, w)
         else
           (let width = (if Values_Get query ''w'' = [] then ''0'' else Values_Get query ''w'');
                height = (if Values_Get query ''h'' = [] then ''0'' else Values_Get query ''h'');
                quality = Values_Get query ''q'';
                fullURL = URL_String env
                  \<lparr>Scheme = Scheme originalURL, Host = Host originalURL, Path = urlQ, RawQuery = []\<rparr>;
                w1 = emit (ClientGet fullURL) w
            in (case client_Get env fullURL of
                  Inl err \<Rightarrow> server_error env err rw cache w1
                | Inr res \<Rightarrow>
                    (let origPath = filepath_Join env (cacheDir env) (filename @ filepath_Ext urlQ);
                         w2 = emit (OpenFile origPath) w1
                     in (case os_OpenFile (can_create env) (files w2) origPath of
                           Inl err \<Rightarrow> server_error env err rw cache w2
                         | Inr fs \<Rightarrow>
                             (let w3 = w2\<lparr>files := write_from_start origPath (Body res) fs\<rparr>
                              in (case BodyErr res of
                                    Some err \<Rightarrow> server_error env err rw cache w3
                                  | None \<Rightarrow>
                                      (case store_set webpPath
                                              (transform env
                                                 (cwebp_args quality width height origPath webpPath))
                                              cache w3 of
                                         (Some err, cache1, w4) \<Rightarrow> server_error env err rw cache1 w4
                                       | (None, cache1, w4) \<Rightarrow>
                                           serve_fresh env webpPath rw cache1 w4))))))))"

definition webp_path :: "env \<Rightarrow> request \<Rightarrow> string" where
  "webp_path env r =
     filepath_Join env (cacheDir env) (fingerprint (Path (URL r)) (RawQuery (URL r)) @ ''.webp'')"

definition handler ::
  "env \<Rightarrow> url \<Rightarrow> response \<Rightarrow> request \<Rightarrow> store \<Rightarrow> world \<Rightarrow> response \<times> store \<times> world" where
  "handler env originalURL rw r cache w =
     (let filename = fingerprint (Path (URL r)) (RawQuery (URL r));
          webpPath = filepath_Join env (cacheDir env) (filename @ ''.webp'')
      in (case store_get webpPath cache w of
            (Inr f, cache1, w1) \<Rightarrow>
              (case writeWebp env rw f of
                 (rw1, Some err) \<Rightarrow>
                   handler_miss env originalURL r filename webpPath rw1 cache1
                     (emit (Printf WARN err) w1)
               | (rw1, None) \<Rightarrow> (rw1, cache1, w1))
          | (Inl err, cache1, w1) \<Rightarrow>
              handler_miss env originalURL r filename webpPath rw cache1 w1))"

section \<open>Views of a run\<close>

text \<open>A run of \<^verbatim>\<open>get\<close> and \<^verbatim>\<open>set\<close> calls on one store, each call on what the one before left.\<close>

datatype store_op = OpGet string | OpSet string "world \<Rightarrow> error option \<times> world"

fun op_key :: "store_op \<Rightarrow> string" where
  "op_key (OpGet path) = path"
| "op_key (OpSet key f) = key"

fun run_ops :: "store_op list \<Rightarrow> store \<Rightarrow> world \<Rightarrow> store \<times> world" where
  "run_ops [] fc w = (fc, w)"
| "run_ops (OpGet path # ops) fc w =
     (case store_get path fc w of (r, fc1, w1) \<Rightarrow> run_ops ops fc1 w1)"
| "run_ops (OpSet key f # ops) fc w =
     (case store_set key f fc w of (r, fc1, w1) \<Rightarrow> run_ops ops fc1 w1)"

text \<open>The status line the client gets once the handler has returned.\<close>

definition sent_status :: "response \<Rightarrow> nat option" where
  "sent_status rw = map_option fst (wrote (finishRequest rw))"

text \<open>The events a call appended to the trace.\<close>

definition new_events :: "world \<Rightarrow> world \<Rightarrow> event list" where
  "new_events w w' = drop (length (trace w)) (trace w')"

text \<open>
  Names for values the handler computes on its way: the \<^verbatim>\<open>url\<close> parameter (line 138), the
  origin URL (lines 155-159), the scratch path (line 169), width and height with their
  default (lines 144-151) and the arguments of \<^verbatim>\<open>cwebp\<close> (line 188).
\<close>

definition url_param :: "env \<Rightarrow> request \<Rightarrow> string" where
  "url_param env r = Values_Get (ParseQuery env (RawQuery (URL r))) ''url''"

definition full_url :: "env \<Rightarrow> url \<Rightarrow> request \<Rightarrow> string" where
  "full_url env originalURL r =
     URL_String env
       \<lparr>Scheme = Scheme originalURL, Host = Host originalURL, Path = url_param env r, RawQuery = []\<rparr>"

definition orig_path :: "env \<Rightarrow> request \<Rightarrow> string" where
  "orig_path env r =
     filepath_Join env (cacheDir env)
       (fingerprint (Path (URL r)) (RawQuery (URL r)) @ filepath_Ext (url_param env r))"

definition param_or_zero :: "env \<Rightarrow> request \<Rightarrow> string \<Rightarrow> string" where
  "param_or_zero env r key =
     (if Values_Get (ParseQuery env (RawQuery (URL r))) key = [] then ''0''
      else Values_Get (ParseQuery env (RawQuery (URL r))) key)"

definition transform_args :: "env \<Rightarrow> request \<Rightarrow> string list" where
  "transform_args env r =
     cwebp_args (Values_Get (ParseQuery env (RawQuery (URL r))) ''q'')
       (param_or_zero env r ''w'') (param_or_zero env r ''h'') (orig_path env r) (webp_path env r)"

section \<open>A concrete setting\<close>

text \<open>
  One cache directory, one origin and two requests, on which the properties below are run.
  The library functions are given by their values on the inputs used here: a clean
  directory joined with a plain file name, the one query string \<^verbatim>\<open>url=/a.png\<close>, an origin
  URL with a plain path, and content detection of WebP and of plain text. The origin
  answers every request with a 404 page; \<^verbatim>\<open>cwebp\<close> succeeds and writes a WebP file to its
  last argument.
\<close>

definition example_env :: env where
  "example_env =
     \<lparr>cacheDir = ''/cache'',
      filepath_Join = (\<lambda>dir name. dir @ ''/'' @ name),
      ParseQuery = (\<lambda>q. if q = ''url=/a.png'' then [''url'' \<mapsto> [''/a.png'']] else Map.empty),
      URL_String = (\<lambda>u. Scheme u @ ''://'' @ Host u @ Path u),
      DetectContentType =
        (\<lambda>b. if take 4 b = ''RIFF'' \<and> take 6 (drop 8 b) = ''WEBPVP'' then ''image/webp''
             else ''text/plain; charset=utf-8''),
      client_Get = (\<lambda>u. Inr \<lparr>StatusCode = 404, Body = ''404 page not found'', BodyErr = None\<rparr>),
      can_create = (\<lambda>name. True),
      cwebp = (\<lambda>args fs.
        (([], None),
         fs(last args \<mapsto> \<lparr>content = ''RIFF0000WEBPVP8 '', may_read = True, may_write = True\<rparr>)))\<rparr>"

definition example_origin :: url where
  "example_origin = \<lparr>Scheme = ''https'', Host = ''img.example'', Path = [], RawQuery = []\<rparr>"

text \<open>\<^verbatim>\<open>GET /?url=/a.png\<close> and \<^verbatim>\<open>GET /logo\<close>, the second without any query.\<close>

definition example_request :: request where
  "example_request = \<lparr>URL = \<lparr>Scheme = [], Host = [], Path = ''/'', RawQuery = ''url=/a.png''\<rparr>\<rparr>"

definition bare_request :: request where
  "bare_request = \<lparr>URL = \<lparr>Scheme = [], Host = [], Path = ''/logo'', RawQuery = []\<rparr>\<rparr>"

definition fresh_response :: response where
  "fresh_response = \<lparr>header = [], wrote = None, body = [], conn_ok = True\<rparr>"

definition empty_world :: world where
  "empty_world = \<lparr>files = Map.empty, trace = []\<rparr>"

text \<open>A cache directory holding one artifact, the one of request \<open>r\<close>.\<close>

definition cached_world :: "request \<Rightarrow> string \<Rightarrow> world" where
  "cached_world r bytes =
     \<lparr>files = [webp_path example_env r \<mapsto> \<lparr>content = bytes, may_read = True, may_write = True\<rparr>],
      trace = []\<rparr>"

text \<open>
  The same setting with a second query string, \<^verbatim>\<open>w=1&url=/a.png\<close>, and a \<^verbatim>\<open>cwebp\<close> whose output
  shows the width it was given. \<^verbatim>\<open>GET /?w=1&url=/a.png\<close> asks for width 1;
  \<^verbatim>\<open>GET /w=1&?url=/a.png\<close> has the path \<^verbatim>\<open>/w=1&\<close> and names no width.
\<close>

definition resize_env :: env where
  "resize_env =
     example_env
       \<lparr>ParseQuery := (\<lambda>q. if q = ''w=1&url=/a.png'' then [''w'' \<mapsto> [''1''], ''url'' \<mapsto> [''/a.png'']]
                         else ParseQuery example_env q),
        cwebp := (\<lambda>args fs.
          (([], None),
           fs(last args \<mapsto> \<lparr>content = ''RIFF0000WEBPVP8 w='' @ concat (take 1 (drop 4 args)),
                             may_read = True, may_write = True\<rparr>)))\<rparr>"

definition resize_request :: request where
  "resize_request = \<lparr>URL = \<lparr>Scheme = [], Host = [], Path = ''/'', RawQuery = ''w=1&url=/a.png''\<rparr>\<rparr>"

definition crafted_request :: request where
  "crafted_request = \<lparr>URL = \<lparr>Scheme = [], Host = [], Path = ''/w=1&'', RawQuery = ''url=/a.png''\<rparr>\<rparr>"

section \<open>Properties of the cache key\<close>

lemma hex_digit_inj:
  assumes "a < 16" "b < 16" "hex_digit a = hex_digit b"
  shows "a = b"
proof -
  have d: "distinct ''0123456789abcdef''" by simp
  have l: "length ''0123456789abcdef'' = 16" by simp
  show ?thesis
    using assms nth_eq_iff_index_eq [OF d, of a b] unfolding hex_digit_def l by simp
qed

lemma of_char_high_nibble: "(of_char c :: nat) div 16 < 16"
  by (rule less_mult_imp_div_less) simp

lemma hex_byte_inj:
  assumes "hex_byte c = hex_byte d"
  shows "c = d"
proof -
  from assms have hi: "hex_digit (of_char c div 16) = hex_digit (of_char d div 16)"
    and lo: "hex_digit (of_char c mod 16) = hex_digit (of_char d mod 16)"
    by (simp_all add: hex_byte_def)
  have "(of_char c :: nat) div 16 = of_char d div 16"
    using hi of_char_high_nibble by (rule_tac hex_digit_inj) auto
  moreover have "(of_char c :: nat) mod 16 = of_char d mod 16"
    using lo by (rule_tac hex_digit_inj) auto
  ultimately have "(of_char c :: nat) = of_char d"
    by (metis div_mult_mod_eq)
  then show ?thesis by simp
qed

lemma hex_EncodeToString_inj:
  "hex_EncodeToString xs = hex_EncodeToString ys \<Longrightarrow> xs = ys"
proof (induction xs arbitrary: ys)
  case Nil
  then show ?case by (cases ys) (simp_all add: hex_EncodeToString_def hex_byte_def)
next
  case (Cons x xs)
  show ?case
  proof (cases ys)
    case Nil
    with Cons.prems show ?thesis by (simp add: hex_EncodeToString_def hex_byte_def)
  next
    case (Cons y ys')
    with Cons.prems have "hex_byte x @ hex_EncodeToString xs = hex_byte y @ hex_EncodeToString ys'"
      by (simp add: hex_EncodeToString_def)
    moreover have "length (hex_byte x) = length (hex_byte y)" by (simp add: hex_byte_def)
    ultimately have "hex_byte x = hex_byte y" "hex_EncodeToString xs = hex_EncodeToString ys'"
      by simp_all
    with Cons.IH Cons show ?thesis by (simp add: hex_byte_inj)
  qed
qed

lemma sha1_Sum_length: "length (sha1_Sum msg) = 20"
  by (simp add: sha1_Sum_def word_bytes_def split: prod.splits)

lemma fingerprint_length: "length (fingerprint path rawQuery) = 40"
  by (simp add: fingerprint_def hex_EncodeToString_def hex_byte_def length_concat
      sha1_Sum_length comp_def sum_list_triv)

text \<open>
  The key is a function of the concatenation \<^verbatim>\<open>Path + RawQuery\<close> alone: two requests get the
  same key exactly when the SHA-1 digests of their concatenations are equal. Where path and
  query meet is not part of the hashed bytes.
\<close>

lemma fingerprint_eq_iff_digest_eq:
  "fingerprint p q = fingerprint p' q' \<longleftrightarrow> sha1_Sum (p @ q) = sha1_Sum (p' @ q')"
  unfolding fingerprint_def using hex_EncodeToString_inj by auto

lemma fingerprint_ignores_split:
  "(''/a'', ''b'') \<noteq> (''/ab'', []) \<and> ''/a'' @ ''b'' = ''/ab'' @ []
     \<and> fingerprint ''/a'' ''b'' = fingerprint ''/ab'' []"
  by (simp add: fingerprint_def)

section \<open>Properties of the store\<close>

lemma mutex_of_eq:
  "mutex_of k fc =
     (case store_m fc k of
        Some mu \<Rightarrow> (mu, fc\<lparr>next_mutex := Suc (next_mutex fc)\<rparr>)
      | None \<Rightarrow> (next_mutex fc,
          fc\<lparr>next_mutex := Suc (next_mutex fc), store_m := (store_m fc)(k \<mapsto> next_mutex fc)\<rparr>))"
  by (simp add: mutex_of_def new_RWMutex_def LoadOrStore_def split: option.splits)

lemma store_get_eq:
  "store_get path fc w =
     ((case os_Open (files w) path of Inl e \<Rightarrow> Inl errKeyNotFound | Inr f \<Rightarrow> Inr f),
      snd (mutex_of path fc),
      w\<lparr>trace := trace w @ [RLock (fst (mutex_of path fc)), RUnlock (fst (mutex_of path fc))]\<rparr>)"
  by (simp add: store_get_def os_Stat_def os_Open_def emit_def Let_def
      split: prod.splits option.splits sum.splits)

lemma store_set_eq:
  "store_set key f fc w =
     (fst (f (emit (RLock (fst (mutex_of key fc))) w)),
      snd (mutex_of key fc),
      emit (RUnlock (fst (mutex_of key fc))) (snd (f (emit (RLock (fst (mutex_of key fc))) w))))"
  by (simp add: store_set_def Let_def split: prod.splits)

lemma mutex_of_table:
  assumes "mutex_of k fc = (mu, fc1)"
  shows "store_m fc1 k = Some mu"
    and "store_m fc k' = Some mu' \<Longrightarrow> store_m fc1 k' = Some mu'"
    and "dom (store_m fc1) = insert k (dom (store_m fc))"
  using assms by (auto simp: mutex_of_eq split: option.splits if_splits)

lemma mutexes_of_table:
  "mutexes_of ks fc = (mus, fc') \<Longrightarrow>
     length mus = length ks
     \<and> (\<forall>i<length ks. store_m fc' (ks ! i) = Some (mus ! i))
     \<and> (\<forall>k mu. store_m fc k = Some mu \<longrightarrow> store_m fc' k = Some mu)
     \<and> dom (store_m fc') = dom (store_m fc) \<union> set ks"
proof (induction ks arbitrary: fc mus fc')
  case Nil
  then show ?case by auto
next
  case (Cons k ks)
  obtain mu fc1 where m: "mutex_of k fc = (mu, fc1)" by (cases "mutex_of k fc")
  obtain mus1 fc2 where r: "mutexes_of ks fc1 = (mus1, fc2)" by (cases "mutexes_of ks fc1")
  from Cons.prems m r have eq: "mus = mu # mus1" "fc' = fc2" by simp_all
  note ih = Cons.IH [OF r]
  have len: "length (mu # mus1) = length (k # ks)"
    using ih by simp
  have keep: "store_m fc2 k = Some mu"
    using ih mutex_of_table(1) [OF m] by blast
  have nth: "\<forall>i<length (k # ks). store_m fc2 ((k # ks) ! i) = Some ((mu # mus1) ! i)"
  proof (intro allI impI)
    fix i assume "i < length (k # ks)"
    then show "store_m fc2 ((k # ks) ! i) = Some ((mu # mus1) ! i)"
      using keep ih by (cases i) auto
  qed
  have mono: "\<forall>k' mu'. store_m fc k' = Some mu' \<longrightarrow> store_m fc2 k' = Some mu'"
    using ih mutex_of_table(2) [OF m] by blast
  have d: "dom (store_m fc2) = dom (store_m fc) \<union> set (k # ks)"
    using ih mutex_of_table(3) [OF m] by auto
  show ?case unfolding eq using len nth mono d by blast
qed

lemma store_get_table: "fst (snd (store_get path fc w)) = snd (mutex_of path fc)"
  by (simp add: store_get_eq)

lemma store_set_table: "fst (snd (store_set key f fc w)) = snd (mutex_of key fc)"
  by (simp add: store_set_eq)

lemma run_ops_table:
  "fst (run_ops ops fc w) = snd (mutexes_of (map op_key ops) fc)"
proof (induction ops arbitrary: fc w)
  case Nil
  show ?case by simp
next
  case (Cons a ops)
  show ?case
  proof (cases a)
    case (OpGet path)
    obtain r fc1 w1 where g: "store_get path fc w = (r, fc1, w1)"
      by (cases "store_get path fc w")
    with store_get_table [of path fc w] have "snd (mutex_of path fc) = fc1" by simp
    then obtain mu where "mutex_of path fc = (mu, fc1)"
      by (cases "mutex_of path fc") simp
    with g OpGet Cons.IH [of fc1 w1] show ?thesis
      by (simp split: prod.splits)
  next
    case (OpSet key f)
    obtain r fc1 w1 where g: "store_set key f fc w = (r, fc1, w1)"
      by (cases "store_set key f fc w")
    with store_set_table [of key f fc w] have "snd (mutex_of key fc) = fc1" by simp
    then obtain mu where "mutex_of key fc = (mu, fc1)"
      by (cases "mutex_of key fc") simp
    with g OpSet Cons.IH [of fc1 w1] show ?thesis
      by (simp split: prod.splits)
  qed
qed

text \<open>
  In a run of \<^verbatim>\<open>get\<close> operations the read locks taken and released are, in order, the
  mutexes of the keys.
\<close>

lemma run_gets_trace:
  "mutexes_of ks fc = (mus, fc') \<Longrightarrow>
     run_ops (map OpGet ks) fc w
       = (fc', w\<lparr>trace := trace w @ concat (map (\<lambda>mu. [RLock mu, RUnlock mu]) mus)\<rparr>)"
proof (induction ks arbitrary: fc w mus fc')
  case Nil
  then show ?case by simp
next
  case (Cons k ks)
  obtain mu fc1 where m: "mutex_of k fc = (mu, fc1)" by (cases "mutex_of k fc")
  obtain mus1 fc2 where r: "mutexes_of ks fc1 = (mus1, fc2)" by (cases "mutexes_of ks fc1")
  from Cons.prems m r have eq: "mus = mu # mus1" "fc' = fc2" by simp_all
  obtain res where g: "store_get k fc w
      = (res, fc1, w\<lparr>trace := trace w @ [RLock mu, RUnlock mu]\<rparr>)"
    using m by (simp add: store_get_eq)
  show ?case
    using Cons.IH [OF r, of "w\<lparr>trace := trace w @ [RLock mu, RUnlock mu]\<rparr>"]
    unfolding eq by (simp add: g)
qed

text \<open>
  C7. After any run of \<^verbatim>\<open>get\<close> and \<^verbatim>\<open>set\<close> operations the table holds one mutex for each
  key named so far and for the keys it held before, and nothing else: an entry is never
  removed or replaced, every operation obtains the mutex the table holds for its key, so
  two operations naming one key obtain the same mutex, the one stored by the first of them.
  Each \<^verbatim>\<open>get\<close> and each \<^verbatim>\<open>set\<close> changes the table by one \<^verbatim>\<open>LoadOrStore\<close> on its key, read-locks the
  mutex it obtained and unlocks it when it returns. Two first-time operations that race on
  a new key are two entries of the run, in the order of their atomic \<^verbatim>\<open>LoadOrStore\<close> calls.
\<close>

theorem lock_table_one_mutex_per_key:
  assumes "run_ops ops fc w = (fc', w')"
    and "mutexes_of (map op_key ops) fc = (mus, fc'')"
  shows "fc'' = fc'
     \<and> length mus = length ops
     \<and> (\<forall>i<length ops. store_m fc' (op_key (ops ! i)) = Some (mus ! i))
     \<and> (\<forall>i<length ops. \<forall>j<length ops. op_key (ops ! i) = op_key (ops ! j) \<longrightarrow> mus ! i = mus ! j)
     \<and> (\<forall>k mu. store_m fc k = Some mu \<longrightarrow> store_m fc' k = Some mu)
     \<and> dom (store_m fc') = dom (store_m fc) \<union> op_key ` set ops
     \<and> fst (snd (store_get path fc w)) = snd (mutex_of path fc)
     \<and> trace (snd (snd (store_get path fc w)))
         = trace w @ [RLock (fst (mutex_of path fc)), RUnlock (fst (mutex_of path fc))]
     \<and> fst (snd (store_set key f fc w)) = snd (mutex_of key fc)
     \<and> trace (snd (snd (store_set key f fc w)))
         = trace (snd (f (emit (RLock (fst (mutex_of key fc))) w)))
             @ [RUnlock (fst (mutex_of key fc))]"
proof -
  have same: "fc'' = fc'"
    using assms run_ops_table [of ops fc w] by simp
  note t = mutexes_of_table [OF assms(2)]
  have len: "length mus = length ops"
    using t by simp
  have nth: "\<forall>i<length ops. store_m fc' (op_key (ops ! i)) = Some (mus ! i)"
    using t same by auto
  have eq: "\<forall>i<length ops. \<forall>j<length ops. op_key (ops ! i) = op_key (ops ! j) \<longrightarrow> mus ! i = mus ! j"
  proof (intro allI impI)
    fix i j assume "i < length ops" "j < length ops" "op_key (ops ! i) = op_key (ops ! j)"
    from nth \<open>i < length ops\<close> have a: "store_m fc' (op_key (ops ! i)) = Some (mus ! i)"
      by blast
    from nth \<open>j < length ops\<close> have b: "store_m fc' (op_key (ops ! j)) = Some (mus ! j)"
      by blast
    from a b \<open>op_key (ops ! i) = op_key (ops ! j)\<close> show "mus ! i = mus ! j" by simp
  qed
  have mono: "\<forall>k mu. store_m fc k = Some mu \<longrightarrow> store_m fc' k = Some mu"
    using t same by blast
  have d: "dom (store_m fc') = dom (store_m fc) \<union> op_key ` set ops"
    using t same by simp
  have g: "trace (snd (snd (store_get path fc w)))
         = trace w @ [RLock (fst (mutex_of path fc)), RUnlock (fst (mutex_of path fc))]"
    by (simp add: store_get_eq)
  have s: "trace (snd (snd (store_set key f fc w)))
         = trace (snd (f (emit (RLock (fst (mutex_of key fc))) w)))
             @ [RUnlock (fst (mutex_of key fc))]"
    by (simp add: store_set_eq emit_def)
  note gt = store_get_table [of path fc w] and st = store_set_table [of key f fc w]
  show ?thesis
    by (intro conjI)
      (fact same, fact len, fact nth, fact eq, fact mono, fact d, fact gt, fact g, fact st, fact s)
qed

text \<open>
  A run on a new store: a \<^verbatim>\<open>get\<close> and a \<^verbatim>\<open>set\<close> meeting on the new key \<^verbatim>\<open>k1\<close> both obtain mutex 0,
  the mutex 1 that the second one allocated is dropped, and \<^verbatim>\<open>k2\<close> gets mutex 2.
\<close>

theorem lock_table_one_mutex_per_key_witness:
  "run_ops [OpGet ''k1'', OpSet ''k1'' (\<lambda>w. (None, w)), OpGet ''k2''] (newStore ''/cache'') empty_world
     = (\<lparr>store_m = [''k1'' \<mapsto> 0, ''k2'' \<mapsto> 2], next_mutex = 3\<rparr>,
        \<lparr>files = Map.empty,
         trace = [RLock 0, RUnlock 0, RLock 0, RUnlock 0, RLock 2, RUnlock 2]\<rparr>)
   \<and> mutexes_of (map op_key [OpGet ''k1'', OpSet ''k1'' (\<lambda>w. (None, w)), OpGet ''k2''])
        (newStore ''/cache'')
     = ([0, 0, 2], \<lparr>store_m = [''k1'' \<mapsto> 0, ''k2'' \<mapsto> 2], next_mutex = 3\<rparr>)
   \<and> dom (store_m (fst (run_ops [OpGet ''k1'', OpSet ''k1'' (\<lambda>w. (None, w)), OpGet ''k2'']
        (newStore ''/cache'') empty_world))) = {''k1'', ''k2''}"
proof -
  let ?ops = "[OpGet ''k1'', OpSet ''k1'' (\<lambda>w. (None, w)), OpGet ''k2'']"
  let ?fc = "\<lparr>store_m = [''k1'' \<mapsto> 0, ''k2'' \<mapsto> 2], next_mutex = 3\<rparr>"
  let ?w = "\<lparr>files = Map.empty, trace = [RLock 0, RUnlock 0, RLock 0, RUnlock 0, RLock 2, RUnlock 2]\<rparr>"
  have run: "run_ops ?ops (newStore ''/cache'') empty_world = (?fc, ?w)"
    by (simp add: store_get_eq store_set_eq mutex_of_eq newStore_def empty_world_def emit_def
        os_Open_def errKeyNotFound_def eval_nat_numeral)
  have mus: "mutexes_of (map op_key ?ops) (newStore ''/cache'') = ([0, 0, 2], ?fc)"
    by (simp add: mutex_of_eq newStore_def eval_nat_numeral)
  from lock_table_one_mutex_per_key [OF run mus]
  have "dom (store_m ?fc) = dom (store_m (newStore ''/cache'')) \<union> op_key ` set ?ops"
    by blast
  then have "dom (store_m (fst (run_ops ?ops (newStore ''/cache'') empty_world))) = {''k1'', ''k2''}"
    unfolding run by (simp add: newStore_def)
  with run mus show ?thesis by simp
qed

text \<open>
  C8. \<^verbatim>\<open>store.get\<close> returns \<^verbatim>\<open>errKeyNotFound\<close> exactly when no file is at the path or the file
  fails to open; otherwise it returns a read handle on the file at that path, yielding its
  bytes. It leaves every file as it was.
\<close>

theorem store_get_not_found_iff:
  assumes "store_get path fc w = (res, fc', w')"
  shows "files w' = files w
     \<and> (res = Inl errKeyNotFound \<longleftrightarrow>
          files w path = None \<or> (\<exists>e. os_Open (files w) path = Inl e))
     \<and> (res \<noteq> Inl errKeyNotFound \<longrightarrow>
          (\<exists>f. files w path = Some f \<and> may_read f
             \<and> res = Inr \<lparr>h_name = path, h_bytes = content f\<rparr>))"
proof -
  from assms have r: "res = (case os_Open (files w) path of Inl e \<Rightarrow> Inl errKeyNotFound | Inr f \<Rightarrow> Inr f)"
    and w': "w' = w\<lparr>trace := trace w @ [RLock (fst (mutex_of path fc)), RUnlock (fst (mutex_of path fc))]\<rparr>"
    by (simp_all add: store_get_eq)
  have f: "files w' = files w" using w' by simp
  show ?thesis
  proof (cases "files w path")
    case None
    then show ?thesis using r f by (simp add: os_Open_def)
  next
    case (Some a)
    then show ?thesis using r f by (cases "may_read a") (simp_all add: os_Open_def)
  qed
qed

text \<open>
  A readable artifact is handed back; in an empty cache directory the key is not found.
\<close>

theorem store_get_not_found_iff_witness:
  "store_get (webp_path example_env bare_request) (newStore ''/cache'')
       (cached_world bare_request ''RIFF0000WEBPVP8 '')
     = (Inr \<lparr>h_name = webp_path example_env bare_request, h_bytes = ''RIFF0000WEBPVP8 ''\<rparr>,
        \<lparr>store_m = [webp_path example_env bare_request \<mapsto> 0], next_mutex = 1\<rparr>,
        \<lparr>files = files (cached_world bare_request ''RIFF0000WEBPVP8 ''),
         trace = [RLock 0, RUnlock 0]\<rparr>)
   \<and> fst (store_get (webp_path example_env bare_request) (newStore ''/cache'') empty_world)
       = Inl errKeyNotFound
   \<and> files (snd (snd (store_get (webp_path example_env bare_request) (newStore ''/cache'') empty_world)))
       = files empty_world"
proof -
  let ?P = "webp_path example_env bare_request"
  let ?G = "store_get ?P (newStore ''/cache'') empty_world"
  have hit: "store_get ?P (newStore ''/cache'') (cached_world bare_request ''RIFF0000WEBPVP8 '')
     = (Inr \<lparr>h_name = ?P, h_bytes = ''RIFF0000WEBPVP8 ''\<rparr>,
        \<lparr>store_m = [?P \<mapsto> 0], next_mutex = 1\<rparr>,
        \<lparr>files = files (cached_world bare_request ''RIFF0000WEBPVP8 ''),
         trace = [RLock 0, RUnlock 0]\<rparr>)"
    by (simp add: store_get_eq os_Open_def cached_world_def mutex_of_eq newStore_def)
  have run: "?G = (fst ?G, fst (snd ?G), snd (snd ?G))" by simp
  have absent: "files empty_world ?P = None" by (simp add: empty_world_def)
  from store_get_not_found_iff [OF run] absent
  have "files (snd (snd ?G)) = files empty_world" and "fst ?G = Inl errKeyNotFound"
    by blast+
  with hit show ?thesis by simp
qed

section \<open>Properties of the response writer\<close>

lemma canonical_content_type: "CanonicalMIMEHeaderKey ''content-type'' = ''Content-Type''"
  by code_simp

lemma canonical_Content_Type: "CanonicalMIMEHeaderKey ''Content-Type'' = ''Content-Type''"
  by code_simp

lemma canonical_Content_Length: "CanonicalMIMEHeaderKey ''Content-Length'' = ''Content-Length''"
  by code_simp

lemma canonical_nosniff: "CanonicalMIMEHeaderKey ''X-Content-Type-Options'' = ''X-Content-Type-Options''"
  by code_simp

lemmas canon = canonical_content_type canonical_Content_Type canonical_Content_Length canonical_nosniff

lemma writeWebp_wrote:
  "wrote (fst (writeWebp env rw f)) = wrote (fst (io_Copy env rw f))"
  by (simp add: writeWebp_def split: prod.splits option.splits)

lemma writeWebp_body:
  "writeWebp env rw f = (rw1, None) \<Longrightarrow> body rw1 = body rw @ h_bytes f"
  by (auto simp: writeWebp_def io_Copy_def Write_def Let_def split: if_splits prod.splits option.splits)

lemma writeWebp_status:
  "writeWebp env rw f = (rw1, None) \<Longrightarrow> wrote rw = None \<Longrightarrow> sent_status rw1 = Some 200"
  by (auto simp: writeWebp_def io_Copy_def Write_def Let_def sent_status_def finishRequest_def
      WriteHeader_def split: if_splits prod.splits option.splits)

lemma http_Error_status:
  "wrote rw = None \<Longrightarrow> sent_status (http_Error env rw msg code) = Some code"
  by (simp add: http_Error_def Write_def WriteHeader_def Let_def sent_status_def finishRequest_def)

section \<open>The handler, case by case\<close>

lemma os_Open_hit:
  "fs name = Some f \<Longrightarrow> may_read f \<Longrightarrow> os_Open fs name = Inr \<lparr>h_name = name, h_bytes = content f\<rparr>"
  by (simp add: os_Open_def)

lemma handler_hit:
  assumes "files w (webp_path env r) = Some f" and "may_read f"
    and "writeWebp env rw \<lparr>h_name = webp_path env r, h_bytes = content f\<rparr> = (rw1, None)"
  shows "handler env originalURL rw r cache w =
     (rw1, snd (mutex_of (webp_path env r) cache),
      w\<lparr>trace := trace w @ [RLock (fst (mutex_of (webp_path env r) cache)),
                             RUnlock (fst (mutex_of (webp_path env r) cache))]\<rparr>)"
  using assms os_Open_hit [of "files w" "webp_path env r" f]
  by (simp add: handler_def store_get_eq webp_path_def Let_def)

lemma handler_hit_copy_failed:
  assumes "files w (webp_path env r) = Some f" and "may_read f"
    and "writeWebp env rw \<lparr>h_name = webp_path env r, h_bytes = content f\<rparr> = (rw1, Some err)"
  shows "handler env originalURL rw r cache w =
     handler_miss env originalURL r (fingerprint (Path (URL r)) (RawQuery (URL r)))
       (webp_path env r) rw1 (snd (mutex_of (webp_path env r) cache))
       (w\<lparr>trace := trace w @ [RLock (fst (mutex_of (webp_path env r) cache)),
                              RUnlock (fst (mutex_of (webp_path env r) cache)),
                              Printf WARN err]\<rparr>)"
  using assms os_Open_hit [of "files w" "webp_path env r" f]
  by (simp add: handler_def store_get_eq webp_path_def Let_def emit_def)

lemma handler_lookup_failed:
  assumes "os_Open (files w) (webp_path env r) = Inl e"
  shows "handler env originalURL rw r cache w =
     handler_miss env originalURL r (fingerprint (Path (URL r)) (RawQuery (URL r)))
       (webp_path env r) rw (snd (mutex_of (webp_path env r) cache))
       (w\<lparr>trace := trace w @ [RLock (fst (mutex_of (webp_path env r) cache)),
                              RUnlock (fst (mutex_of (webp_path env r) cache))]\<rparr>)"
  using assms
  by (simp add: handler_def store_get_eq webp_path_def Let_def)

lemma handler_miss_no_url:
  "Values_Get (ParseQuery env (RawQuery (URL r))) ''url'' = [] \<Longrightarrow>
     handler_miss env originalURL r filename webpPath rw cache w =
       (http_Error env rw ''query `url` is emptry'' 400, cache, w)"
  by (simp add: handler_miss_def Let_def)

lemmas view_defs = url_param_def full_url_def orig_path_def param_or_zero_def transform_args_def

text \<open>
  The three ways the fetch step (lines 161-183) ends the request, and the way on.
\<close>

lemma handler_miss_get_failed:
  assumes "url_param env r \<noteq> []" and "client_Get env (full_url env originalURL r) = Inl err"
  shows "handler_miss env originalURL r (fingerprint (Path (URL r)) (RawQuery (URL r)))
           (webp_path env r) rw cache w =
     (http_Error env rw err 500, cache,
      w\<lparr>trace := trace w @ [ClientGet (full_url env originalURL r), Printf ERRO err]\<rparr>)"
  using assms by (simp add: handler_miss_def view_defs Let_def server_error_def emit_def)

lemma handler_miss_open_failed:
  assumes "url_param env r \<noteq> []" and "client_Get env (full_url env originalURL r) = Inr res"
    and "os_OpenFile (can_create env) (files w) (orig_path env r) = Inl err"
  shows "handler_miss env originalURL r (fingerprint (Path (URL r)) (RawQuery (URL r)))
           (webp_path env r) rw cache w =
     (http_Error env rw err 500, cache,
      w\<lparr>trace := trace w @ [ClientGet (full_url env originalURL r), OpenFile (orig_path env r),
                             Printf ERRO err]\<rparr>)"
  using assms by (simp add: handler_miss_def view_defs Let_def server_error_def emit_def)

lemma handler_miss_copy_failed:
  assumes "url_param env r \<noteq> []" and "client_Get env (full_url env originalURL r) = Inr res"
    and "os_OpenFile (can_create env) (files w) (orig_path env r) = Inr fs"
    and "BodyErr res = Some err"
  shows "handler_miss env originalURL r (fingerprint (Path (URL r)) (RawQuery (URL r)))
           (webp_path env r) rw cache w =
     (http_Error env rw err 500, cache,
      w\<lparr>files := write_from_start (orig_path env r) (Body res) fs,
        trace := trace w @ [ClientGet (full_url env originalURL r), OpenFile (orig_path env r),
                             Printf ERRO err]\<rparr>)"
  using assms by (simp add: handler_miss_def view_defs Let_def server_error_def emit_def)

lemma handler_miss_fetched:
  assumes "url_param env r \<noteq> []" and "client_Get env (full_url env originalURL r) = Inr res"
    and "os_OpenFile (can_create env) (files w) (orig_path env r) = Inr fs"
    and "BodyErr res = None"
    and "handler_miss env originalURL r (fingerprint (Path (URL r)) (RawQuery (URL r)))
           (webp_path env r) rw cache w = (rw', cache', w')"
  shows "files w' = snd (cwebp env (transform_args env r)
                      (write_from_start (orig_path env r) (Body res) fs))
     \<and> (\<exists>tl. trace w' = trace w @ [ClientGet (full_url env originalURL r), OpenFile (orig_path env r),
            RLock (fst (mutex_of (webp_path env r) cache)),
            Exec ''cwebp'' (transform_args env r),
            RUnlock (fst (mutex_of (webp_path env r) cache))] @ tl
          \<and> (tl = [] \<or> (\<exists>e. tl = [Printf ERRO e])))"
  using assms
  by (auto simp: handler_miss_def view_defs Let_def server_error_def emit_def store_set_eq
      transform_def serve_fresh_def split: prod.splits option.splits sum.splits)

lemma handler_miss_fetches:
  assumes url: "url_param env r \<noteq> []"
    and m: "handler_miss env originalURL r (fingerprint (Path (URL r)) (RawQuery (URL r)))
           (webp_path env r) rw cache w = (rw', cache', w')"
  shows "\<exists>tl. trace w' = trace w @ ClientGet (full_url env originalURL r) # tl"
proof (cases "client_Get env (full_url env originalURL r)")
  case (Inl err)
  from handler_miss_get_failed [OF url Inl, of rw cache w] m show ?thesis by auto
next
  case (Inr res)
  show ?thesis
  proof (cases "os_OpenFile (can_create env) (files w) (orig_path env r)")
    case (Inl err)
    from handler_miss_open_failed [OF url Inr Inl, of rw cache] m show ?thesis by auto
  next
    case fs: (Inr fs)
    show ?thesis
    proof (cases "BodyErr res")
      case (Some err)
      from handler_miss_copy_failed [OF url Inr fs Some, of rw cache] m show ?thesis by auto
    next
      case None
      from handler_miss_fetched [OF url Inr fs None m] show ?thesis by auto
    qed
  qed
qed

lemma handler_miss_events:
  assumes "handler_miss env originalURL r (fingerprint (Path (URL r)) (RawQuery (URL r)))
           (webp_path env r) rw cache w = (rw', cache', w')"
  shows "\<exists>evs. trace w' = trace w @ evs
     \<and> (\<forall>u. ClientGet u \<in> set evs \<longrightarrow> u = full_url env originalURL r)
     \<and> (\<forall>prog args. Exec prog args \<in> set evs \<longrightarrow> prog = ''cwebp'' \<and> args = transform_args env r)"
proof (cases "url_param env r = []")
  case True
  with assms have "w' = w" by (simp add: handler_miss_no_url url_param_def)
  then show ?thesis by simp
next
  case url: False
  show ?thesis
  proof (cases "client_Get env (full_url env originalURL r)")
    case (Inl err)
    from handler_miss_get_failed [OF url Inl, of rw cache w] assms
    have "trace w' = trace w @ [ClientGet (full_url env originalURL r), Printf ERRO err]" by auto
    then show ?thesis by simp
  next
    case (Inr res)
    show ?thesis
    proof (cases "os_OpenFile (can_create env) (files w) (orig_path env r)")
      case (Inl err)
      from handler_miss_open_failed [OF url Inr Inl, of rw cache] assms
      have "trace w' = trace w @ [ClientGet (full_url env originalURL r), OpenFile (orig_path env r),
                             Printf ERRO err]" by auto
      then show ?thesis by simp
    next
      case fs: (Inr fs)
      show ?thesis
      proof (cases "BodyErr res")
        case (Some err)
        from handler_miss_copy_failed [OF url Inr fs Some, of rw cache] assms
        have "trace w' = trace w @ [ClientGet (full_url env originalURL r), OpenFile (orig_path env r),
                             Printf ERRO err]" by auto
        then show ?thesis by simp
      next
        case None
        from handler_miss_fetched [OF url Inr fs None assms]
        obtain tl where "trace w' = trace w @ [ClientGet (full_url env originalURL r),
            OpenFile (orig_path env r),
            RLock (fst (mutex_of (webp_path env r) cache)),
            Exec ''cwebp'' (transform_args env r),
            RUnlock (fst (mutex_of (webp_path env r) cache))] @ tl"
          and "tl = [] \<or> (\<exists>e. tl = [Printf ERRO e])" by blast
        then show ?thesis by auto
      qed
    qed
  qed
qed

lemma handler_reaches_miss:
  assumes "handler env originalURL rw r cache w = (rw', cache', w')"
  shows "(\<exists>rw1. rw' = rw1 \<and> w' = w\<lparr>trace := trace w @ [RLock (fst (mutex_of (webp_path env r) cache)),
                             RUnlock (fst (mutex_of (webp_path env r) cache))]\<rparr>)
     \<or> (\<exists>rw1 c1 pre. handler_miss env originalURL r (fingerprint (Path (URL r)) (RawQuery (URL r)))
           (webp_path env r) rw1 c1 (w\<lparr>trace := trace w @ pre\<rparr>) = (rw', cache', w')
          \<and> (\<forall>u. ClientGet u \<notin> set pre) \<and> (\<forall>prog args. Exec prog args \<notin> set pre))"
proof (cases "os_Open (files w) (webp_path env r)")
  case (Inl e)
  from handler_lookup_failed [OF Inl, of originalURL rw cache] assms
  have "handler_miss env originalURL r (fingerprint (Path (URL r)) (RawQuery (URL r)))
       (webp_path env r) rw (snd (mutex_of (webp_path env r) cache))
       (w\<lparr>trace := trace w @ [RLock (fst (mutex_of (webp_path env r) cache)),
                              RUnlock (fst (mutex_of (webp_path env r) cache))]\<rparr>) = (rw', cache', w')"
    by simp
  then have "\<exists>rw1 c1 pre. handler_miss env originalURL r (fingerprint (Path (URL r)) (RawQuery (URL r)))
           (webp_path env r) rw1 c1 (w\<lparr>trace := trace w @ pre\<rparr>) = (rw', cache', w')
          \<and> (\<forall>u. ClientGet u \<notin> set pre) \<and> (\<forall>prog args. Exec prog args \<notin> set pre)"
    by (intro exI [of _ rw] exI [of _ "snd (mutex_of (webp_path env r) cache)"]
        exI [of _ "[RLock (fst (mutex_of (webp_path env r) cache)),
                    RUnlock (fst (mutex_of (webp_path env r) cache))]"]) simp
  then show ?thesis by (rule disjI2)
next
  case (Inr h)
  then obtain f where f: "files w (webp_path env r) = Some f" "may_read f"
    by (auto simp: os_Open_def split: option.splits if_splits)
  obtain rw1 res where c: "writeWebp env rw \<lparr>h_name = webp_path env r, h_bytes = content f\<rparr> = (rw1, res)"
    by (cases "writeWebp env rw \<lparr>h_name = webp_path env r, h_bytes = content f\<rparr>")
  show ?thesis
  proof (cases res)
    case None
    from handler_hit [OF f c [unfolded None], of originalURL cache] assms
    show ?thesis by simp
  next
    case (Some err)
    from handler_hit_copy_failed [OF f c [unfolded Some], of originalURL cache] assms
    have "handler_miss env originalURL r (fingerprint (Path (URL r)) (RawQuery (URL r)))
       (webp_path env r) rw1 (snd (mutex_of (webp_path env r) cache))
       (w\<lparr>trace := trace w @ [RLock (fst (mutex_of (webp_path env r) cache)),
                              RUnlock (fst (mutex_of (webp_path env r) cache)),
                              Printf WARN err]\<rparr>) = (rw', cache', w')"
      by simp
    then have "\<exists>rw1 c1 pre. handler_miss env originalURL r (fingerprint (Path (URL r)) (RawQuery (URL r)))
           (webp_path env r) rw1 c1 (w\<lparr>trace := trace w @ pre\<rparr>) = (rw', cache', w')
          \<and> (\<forall>u. ClientGet u \<notin> set pre) \<and> (\<forall>prog args. Exec prog args \<notin> set pre)"
      by (intro exI [of _ rw1] exI [of _ "snd (mutex_of (webp_path env r) cache)"]
          exI [of _ "[RLock (fst (mutex_of (webp_path env r) cache)),
                      RUnlock (fst (mutex_of (webp_path env r) cache)), Printf WARN err]"]) simp
    then show ?thesis by (rule disjI2)
  qed
qed

lemma handler_events:
  assumes "handler env originalURL rw r cache w = (rw', cache', w')"
  shows "\<exists>evs. trace w' = trace w @ evs
     \<and> (\<forall>u. ClientGet u \<in> set evs \<longrightarrow> u = full_url env originalURL r)
     \<and> (\<forall>prog args. Exec prog args \<in> set evs \<longrightarrow> prog = ''cwebp'' \<and> args = transform_args env r)"
  using handler_reaches_miss [OF assms]
proof (elim disjE exE conjE)
  fix rw1
  assume "w' = w\<lparr>trace := trace w @ [RLock (fst (mutex_of (webp_path env r) cache)),
                             RUnlock (fst (mutex_of (webp_path env r) cache))]\<rparr>"
  then have "trace w' = trace w @ [RLock (fst (mutex_of (webp_path env r) cache)),
                             RUnlock (fst (mutex_of (webp_path env r) cache))]" by simp
  then show ?thesis by simp
next
  fix rw1 c1 pre
  assume m: "handler_miss env originalURL r (fingerprint (Path (URL r)) (RawQuery (URL r)))
           (webp_path env r) rw1 c1 (w\<lparr>trace := trace w @ pre\<rparr>) = (rw', cache', w')"
    and p: "\<forall>u. ClientGet u \<notin> set pre" "\<forall>prog args. Exec prog args \<notin> set pre"
  from handler_miss_events [OF m] obtain evs where
    e: "trace w' = trace w @ pre @ evs"
      "\<forall>u. ClientGet u \<in> set evs \<longrightarrow> u = full_url env originalURL r"
      "\<forall>prog args. Exec prog args \<in> set evs \<longrightarrow> prog = ''cwebp'' \<and> args = transform_args env r"
    by auto
  show ?thesis
    using e p by (intro exI [of _ "pre @ evs"]) auto
qed

lemma new_events_append: "trace w' = trace w @ evs \<Longrightarrow> new_events w w' = evs"
  by (simp add: new_events_def)

lemma scratch_holds_body:
  assumes "os_OpenFile cc fs0 name = Inr fs"
  shows "\<exists>f. write_from_start name bytes fs name = Some f
           \<and> take (length bytes) (content f) = bytes"
  using assms
  by (auto simp: os_OpenFile_def write_from_start_def split: option.splits if_splits)

lemma status_code_unread:
  "handler (env\<lparr>client_Get := \<lambda>u. map_sum id (\<lambda>res. res\<lparr>StatusCode := code\<rparr>) (client_Get env u)\<rparr>)
       originalURL rw r cache w
     = handler env originalURL rw r cache w"
proof -
  have wr: "Write (env\<lparr>client_Get := g\<rparr>) = Write env" for g
    by (intro ext) (simp add: Write_def)
  have w: "writeWebp (env\<lparr>client_Get := g\<rparr>) = writeWebp env" for g
    by (intro ext) (simp add: writeWebp_def io_Copy_def wr)
  have e: "http_Error (env\<lparr>client_Get := g\<rparr>) = http_Error env" for g
    by (intro ext) (simp add: http_Error_def wr)
  have s: "server_error (env\<lparr>client_Get := g\<rparr>) = server_error env" for g
    by (intro ext) (simp add: server_error_def e)
  have f: "serve_fresh (env\<lparr>client_Get := g\<rparr>) = serve_fresh env" for g
    by (intro ext) (simp add: serve_fresh_def s w split: sum.splits prod.splits option.splits)
  have t: "transform (env\<lparr>client_Get := g\<rparr>) = transform env" for g
    by (intro ext) (simp add: transform_def)
  have m: "handler_miss (env\<lparr>client_Get := \<lambda>u. map_sum id (\<lambda>res. res\<lparr>StatusCode := code\<rparr>) (client_Get env u)\<rparr>)
       originalURL r fn wp rw1 c1 w1 = handler_miss env originalURL r fn wp rw1 c1 w1" for fn wp rw1 c1 w1
    by (cases "client_Get env (URL_String env \<lparr>Scheme = Scheme originalURL, Host = Host originalURL,
          Path = Values_Get (ParseQuery env (RawQuery (URL r))) ''url'', RawQuery = []\<rparr>)")
      (simp_all add: handler_miss_def Let_def e s f t split: sum.splits prod.splits option.splits)
  show ?thesis
    by (simp add: handler_def Let_def w m split: sum.splits prod.splits option.splits)
qed

lemma handler_fetch_cases:
  assumes miss: "os_Open (files w) (webp_path env r) = Inl e0"
    and url: "url_param env r \<noteq> []"
    and run: "handler env originalURL rw r cache w = (rw', cache', w')"
  shows "(\<exists>err. client_Get env (full_url env originalURL r) = Inl err
            \<and> rw' = http_Error env rw err 500 \<and> files w' = files w
            \<and> (\<forall>args. Exec ''cwebp'' args \<notin> set (new_events w w')))
     \<or> (\<exists>res err. client_Get env (full_url env originalURL r) = Inr res
            \<and> os_OpenFile (can_create env) (files w) (orig_path env r) = Inl err
            \<and> rw' = http_Error env rw err 500 \<and> files w' = files w
            \<and> (\<forall>args. Exec ''cwebp'' args \<notin> set (new_events w w')))
     \<or> (\<exists>res fs err. client_Get env (full_url env originalURL r) = Inr res
            \<and> os_OpenFile (can_create env) (files w) (orig_path env r) = Inr fs
            \<and> BodyErr res = Some err
            \<and> rw' = http_Error env rw err 500
            \<and> files w' = write_from_start (orig_path env r) (Body res) fs
            \<and> (\<forall>args. Exec ''cwebp'' args \<notin> set (new_events w w')))
     \<or> (\<exists>res fs. client_Get env (full_url env originalURL r) = Inr res
            \<and> os_OpenFile (can_create env) (files w) (orig_path env r) = Inr fs
            \<and> BodyErr res = None
            \<and> files w' = snd (cwebp env (transform_args env r)
                             (write_from_start (orig_path env r) (Body res) fs))
            \<and> Exec ''cwebp'' (transform_args env r) \<in> set (new_events w w'))"
proof -
  let ?mu = "fst (mutex_of (webp_path env r) cache)"
  let ?w1 = "w\<lparr>trace := trace w @ [RLock ?mu, RUnlock ?mu]\<rparr>"
  let ?c1 = "snd (mutex_of (webp_path env r) cache)"
  from handler_lookup_failed [OF miss, of originalURL rw cache] run
  have m: "handler_miss env originalURL r (fingerprint (Path (URL r)) (RawQuery (URL r)))
       (webp_path env r) rw ?c1 ?w1 = (rw', cache', w')"
    by simp
  have fw: "files ?w1 = files w" by simp
  show ?thesis
  proof (cases "client_Get env (full_url env originalURL r)")
    case (Inl err)
    from handler_miss_get_failed [OF url Inl, of rw ?c1 ?w1] m
    have "rw' = http_Error env rw err 500" "files w' = files w"
      "trace w' = trace w @ [RLock ?mu, RUnlock ?mu, ClientGet (full_url env originalURL r),
         Printf ERRO err]"
      by auto
    with Inl new_events_append [OF this(3)] show ?thesis by simp
  next
    case (Inr res)
    show ?thesis
    proof (cases "os_OpenFile (can_create env) (files w) (orig_path env r)")
      case (Inl err)
      from handler_miss_open_failed [OF url Inr, of ?w1 err rw ?c1] Inl m
      have "rw' = http_Error env rw err 500" "files w' = files w"
        "trace w' = trace w @ [RLock ?mu, RUnlock ?mu, ClientGet (full_url env originalURL r),
           OpenFile (orig_path env r), Printf ERRO err]"
        by auto
      with Inr Inl new_events_append [OF this(3)] show ?thesis by simp
    next
      case fs: (Inr fs)
      then have fs1: "os_OpenFile (can_create env) (files ?w1) (orig_path env r) = Inr fs" by simp
      show ?thesis
      proof (cases "BodyErr res")
        case (Some err)
        from handler_miss_copy_failed [OF url Inr fs1 Some, of rw ?c1] m
        have "rw' = http_Error env rw err 500"
          "files w' = write_from_start (orig_path env r) (Body res) fs"
          "trace w' = trace w @ [RLock ?mu, RUnlock ?mu, ClientGet (full_url env originalURL r),
             OpenFile (orig_path env r), Printf ERRO err]"
          by auto
        with Inr fs Some new_events_append [OF this(3)] show ?thesis by simp
      next
        case None
        from handler_miss_fetched [OF url Inr fs1 None m]
        obtain tl where f: "files w' = snd (cwebp env (transform_args env r)
                      (write_from_start (orig_path env r) (Body res) fs))"
          and t: "trace w' = trace w @ ([RLock ?mu, RUnlock ?mu,
              ClientGet (full_url env originalURL r), OpenFile (orig_path env r),
              RLock (fst (mutex_of (webp_path env r) ?c1)),
              Exec ''cwebp'' (transform_args env r),
              RUnlock (fst (mutex_of (webp_path env r) ?c1))] @ tl)"
          by auto
        from new_events_append [OF t]
        have "Exec ''cwebp'' (transform_args env r) \<in> set (new_events w w')" by simp
        with Inr fs None f show ?thesis by simp
      qed
    qed
  qed
qed

subsection \<open>The concrete setting, evaluated\<close>

lemmas model_defs = handler_def handler_miss_def store_get_def store_set_def mutex_of_def
  new_RWMutex_def LoadOrStore_def newStore_def os_Stat_def os_Open_def os_OpenFile_def
  write_from_start_def emit_def writeWebp_def io_Copy_def Write_def WriteHeader_def
  http_Error_def server_error_def serve_fresh_def transform_def cwebp_args_def
  Header_Add_def Header_Set_def Header_Del_def Values_Get_def webp_path_def
  finishRequest_def errKeyNotFound_def filepath_Ext_def

lemmas example_defs = example_env_def example_origin_def example_request_def bare_request_def
  fresh_response_def empty_world_def cached_world_def

lemma example_miss:
  "os_Open (files empty_world) (webp_path example_env example_request)
     = Inl (''open '' @ webp_path example_env example_request @ '': no such file or directory'')"
  by (simp add: os_Open_def empty_world_def)

lemma example_url: "Values_Get (ParseQuery example_env (RawQuery (URL example_request))) ''url'' = ''/a.png''"
  by (simp add: Values_Get_def example_env_def example_request_def)

lemma example_new_events:
  "new_events empty_world (snd (snd (handler example_env example_origin fresh_response example_request
        (newStore ''/cache'') empty_world)))
     = [RLock 0, RUnlock 0, ClientGet ''https://img.example/a.png'',
        OpenFile (''/cache/'' @ fingerprint ''/'' ''url=/a.png'' @ ''.png''),
        RLock 0,
        Exec ''cwebp'' [''-quiet'', ''-q'', [], ''-resize'', ''0'', ''0'',
          ''/cache/'' @ fingerprint ''/'' ''url=/a.png'' @ ''.png'', ''-o'',
          ''/cache/'' @ fingerprint ''/'' ''url=/a.png'' @ ''.webp''],
        RUnlock 0]"
  by (simp add: model_defs example_defs canon Let_def new_events_def)

section \<open>Properties of the handler\<close>

subsection \<open>Cache hits\<close>

text \<open>
  C1, as the code has it. When the artifact of the request exists and is readable and
  writing it to the response does not fail, the handler appends the cached bytes to the
  response and returns: no file changes, and the only events are taking and releasing the
  read lock of the key, so there is no origin fetch and no run of the tool.
\<close>

theorem cache_hit_served_without_fetch:
  assumes "files w (webp_path env r) = Some f" and "may_read f"
    and "snd (writeWebp env rw \<lparr>h_name = webp_path env r, h_bytes = content f\<rparr>) = None"
    and "handler env originalURL rw r cache w = (rw', cache', w')"
  shows "body rw' = body rw @ content f
     \<and> files w' = files w
     \<and> trace w' = trace w @ [RLock (fst (mutex_of (webp_path env r) cache)),
                              RUnlock (fst (mutex_of (webp_path env r) cache))]
     \<and> (\<forall>u. ClientGet u \<in> set (trace w') \<longrightarrow> ClientGet u \<in> set (trace w))
     \<and> (\<forall>prog args. Exec prog args \<in> set (trace w') \<longrightarrow> Exec prog args \<in> set (trace w))"
proof -
  obtain rw1 where c: "writeWebp env rw \<lparr>h_name = webp_path env r, h_bytes = content f\<rparr> = (rw1, None)"
    using assms(3) by (cases "writeWebp env rw \<lparr>h_name = webp_path env r, h_bytes = content f\<rparr>") simp
  from handler_hit [OF assms(1,2) c, of originalURL cache] assms(4)
  have rw': "rw' = rw1"
    and w': "w' = w\<lparr>trace := trace w @ [RLock (fst (mutex_of (webp_path env r) cache)),
                             RUnlock (fst (mutex_of (webp_path env r) cache))]\<rparr>"
    by simp_all
  have b: "body rw' = body rw @ content f"
    using writeWebp_body [OF c] rw' by simp
  show ?thesis using b w' by simp
qed

theorem cache_hit_served_without_fetch_witness:
  "files (cached_world example_request ''RIFF0000WEBPVP8 '') (webp_path example_env example_request)
     = Some \<lparr>content = ''RIFF0000WEBPVP8 '', may_read = True, may_write = True\<rparr>
   \<and> snd (writeWebp example_env fresh_response
          \<lparr>h_name = webp_path example_env example_request, h_bytes = ''RIFF0000WEBPVP8 ''\<rparr>) = None
   \<and> body (fst (handler example_env example_origin fresh_response example_request
        (newStore ''/cache'') (cached_world example_request ''RIFF0000WEBPVP8 ''))) = ''RIFF0000WEBPVP8 ''
   \<and> files (snd (snd (handler example_env example_origin fresh_response example_request
        (newStore ''/cache'') (cached_world example_request ''RIFF0000WEBPVP8 ''))))
       = files (cached_world example_request ''RIFF0000WEBPVP8 '')
   \<and> trace (snd (snd (handler example_env example_origin fresh_response example_request
        (newStore ''/cache'') (cached_world example_request ''RIFF0000WEBPVP8 ''))))
       = [RLock 0, RUnlock 0]"
proof -
  let ?F = "\<lparr>content = ''RIFF0000WEBPVP8 '', may_read = True, may_write = True\<rparr>"
  let ?W = "cached_world example_request ''RIFF0000WEBPVP8 ''"
  let ?H = "handler example_env example_origin fresh_response example_request (newStore ''/cache'') ?W"
  have f: "files ?W (webp_path example_env example_request) = Some ?F"
    by (simp add: cached_world_def)
  have r: "may_read ?F" by simp
  have c: "snd (writeWebp example_env fresh_response
          \<lparr>h_name = webp_path example_env example_request, h_bytes = content ?F\<rparr>) = None"
    by (simp add: writeWebp_def io_Copy_def Write_def fresh_response_def)
  have run: "?H = (fst ?H, fst (snd ?H), snd (snd ?H))" by simp
  from cache_hit_served_without_fetch [OF f r c run]
  have "body (fst ?H) = body fresh_response @ content ?F"
    and "files (snd (snd ?H)) = files ?W"
    and "trace (snd (snd ?H)) = trace ?W
           @ [RLock (fst (mutex_of (webp_path example_env example_request) (newStore ''/cache''))),
              RUnlock (fst (mutex_of (webp_path example_env example_request) (newStore ''/cache'')))]"
    by blast+
  then show ?thesis
    using f c by (simp add: fresh_response_def cached_world_def mutex_of_eq newStore_def)
qed

text \<open>
  C1, as stated, fails when writing to the response fails (lines 129-134): the artifact
  exists and is readable, the connection does not take the bytes, the handler logs a
  warning and goes on to fetch the origin and to run \<^verbatim>\<open>cwebp\<close>.
\<close>

theorem cache_hit_fetch_counterexample:
  "files (cached_world example_request ''RIFF0000WEBPVP8 '') (webp_path example_env example_request)
     = Some \<lparr>content = ''RIFF0000WEBPVP8 '', may_read = True, may_write = True\<rparr>
   \<and> ClientGet ''https://img.example/a.png''
       \<in> set (trace (snd (snd (handler example_env example_origin (fresh_response\<lparr>conn_ok := False\<rparr>)
            example_request (newStore ''/cache'') (cached_world example_request ''RIFF0000WEBPVP8 '')))))
   \<and> Exec ''cwebp'' [''-quiet'', ''-q'', [], ''-resize'', ''0'', ''0'',
          ''/cache/'' @ fingerprint ''/'' ''url=/a.png'' @ ''.png'', ''-o'',
          ''/cache/'' @ fingerprint ''/'' ''url=/a.png'' @ ''.webp'']
       \<in> set (trace (snd (snd (handler example_env example_origin (fresh_response\<lparr>conn_ok := False\<rparr>)
            example_request (newStore ''/cache'') (cached_world example_request ''RIFF0000WEBPVP8 '')))))"
  by (simp add: model_defs example_defs canon Let_def)

text \<open>
  C3. \<^verbatim>\<open>writeWebp\<close> adds \<^verbatim>\<open>content-type: image/webp\<close> to the header map after \<^verbatim>\<open>io.Copy\<close> has
  written the body (lines 231-235). The first \<^verbatim>\<open>Write\<close> has fixed the header by then, with the
  content type detected from the bytes. For a cache file holding the five bytes \<^verbatim>\<open>hello\<close> the
  response is sent as \<^verbatim>\<open>text/plain\<close>; \<^verbatim>\<open>image/webp\<close> is in the map only. A response carries
  \<^verbatim>\<open>image/webp\<close> when the detection finds a WebP signature in the bytes, not because of
  line 235.
\<close>

theorem webp_content_type_added_too_late:
  "wrote (fst (handler example_env example_origin fresh_response example_request (newStore ''/cache'')
       (cached_world example_request ''hello'')))
     = Some (200, [(''Content-Type'', ''text/plain; charset=utf-8'')])
   \<and> body (fst (handler example_env example_origin fresh_response example_request (newStore ''/cache'')
       (cached_world example_request ''hello''))) = ''hello''
   \<and> header (fst (handler example_env example_origin fresh_response example_request (newStore ''/cache'')
       (cached_world example_request ''hello''))) = [(''Content-Type'', ''image/webp'')]"
  by (simp add: model_defs example_defs canon Let_def)

text \<open>
  C9, as the code has it. The lookup comes before the check of the \<^verbatim>\<open>url\<close> parameter. A
  request whose artifact exists and is readable, and is written to the response without
  error, is answered with that artifact and status 200, whatever its \<^verbatim>\<open>url\<close> parameter; and
  status 400 is sent only when the lookup served nothing. The response is one the server
  hands to the handler: nothing is written to it yet.
\<close>

theorem cached_artifact_served_before_url_check:
  assumes "wrote rw = None"
    and "handler env originalURL rw r cache w = (rw', cache', w')"
  shows "(\<forall>f. files w (webp_path env r) = Some f \<and> may_read f
            \<and> snd (writeWebp env rw \<lparr>h_name = webp_path env r, h_bytes = content f\<rparr>) = None
          \<longrightarrow> sent_status rw' = Some 200 \<and> body rw' = body rw @ content f)
     \<and> (sent_status rw' = Some 400 \<longrightarrow>
          \<not> (\<exists>f. files w (webp_path env r) = Some f \<and> may_read f
                \<and> snd (writeWebp env rw \<lparr>h_name = webp_path env r, h_bytes = content f\<rparr>) = None))"
proof -
  have served: "sent_status rw' = Some 200 \<and> body rw' = body rw @ content f"
    if f: "files w (webp_path env r) = Some f" "may_read f"
      and ok: "snd (writeWebp env rw \<lparr>h_name = webp_path env r, h_bytes = content f\<rparr>) = None"
    for f
  proof -
    obtain rw1 where c: "writeWebp env rw \<lparr>h_name = webp_path env r, h_bytes = content f\<rparr> = (rw1, None)"
      using ok by (cases "writeWebp env rw \<lparr>h_name = webp_path env r, h_bytes = content f\<rparr>") simp
    from handler_hit [OF f c, of originalURL cache] assms(2) have "rw' = rw1" by simp
    then show ?thesis
      using writeWebp_status [OF c assms(1)] writeWebp_body [OF c] by simp
  qed
  have a: "\<forall>f. files w (webp_path env r) = Some f \<and> may_read f
            \<and> snd (writeWebp env rw \<lparr>h_name = webp_path env r, h_bytes = content f\<rparr>) = None
          \<longrightarrow> sent_status rw' = Some 200 \<and> body rw' = body rw @ content f"
    using served by blast
  have b: "sent_status rw' = Some 400 \<longrightarrow>
          \<not> (\<exists>f. files w (webp_path env r) = Some f \<and> may_read f
                \<and> snd (writeWebp env rw \<lparr>h_name = webp_path env r, h_bytes = content f\<rparr>) = None)"
  proof (intro impI notI)
    assume s: "sent_status rw' = Some 400"
    assume "\<exists>f. files w (webp_path env r) = Some f \<and> may_read f
                \<and> snd (writeWebp env rw \<lparr>h_name = webp_path env r, h_bytes = content f\<rparr>) = None"
    then obtain f where "files w (webp_path env r) = Some f" "may_read f"
      "snd (writeWebp env rw \<lparr>h_name = webp_path env r, h_bytes = content f\<rparr>) = None"
      by blast
    from served [OF this] s show False by simp
  qed
  from a b show ?thesis by (rule conjI)
qed

text \<open>
  \<^verbatim>\<open>GET /logo\<close>, without \<^verbatim>\<open>url\<close>, with its artifact in the cache.
\<close>

theorem cached_artifact_served_before_url_check_witness:
  "Values_Get (ParseQuery example_env (RawQuery (URL bare_request))) ''url'' = []
   \<and> wrote fresh_response = None
   \<and> sent_status (fst (handler example_env example_origin fresh_response bare_request
        (newStore ''/cache'') (cached_world bare_request ''RIFF0000WEBPVP8 ''))) = Some 200
   \<and> body (fst (handler example_env example_origin fresh_response bare_request
        (newStore ''/cache'') (cached_world bare_request ''RIFF0000WEBPVP8 ''))) = ''RIFF0000WEBPVP8 ''"
proof -
  let ?F = "\<lparr>content = ''RIFF0000WEBPVP8 '', may_read = True, may_write = True\<rparr>"
  let ?W = "cached_world bare_request ''RIFF0000WEBPVP8 ''"
  let ?H = "handler example_env example_origin fresh_response bare_request (newStore ''/cache'') ?W"
  have u: "Values_Get (ParseQuery example_env (RawQuery (URL bare_request))) ''url'' = []"
    by (simp add: Values_Get_def example_env_def bare_request_def)
  have w: "wrote fresh_response = None" by (simp add: fresh_response_def)
  have run: "?H = (fst ?H, fst (snd ?H), snd (snd ?H))" by simp
  have f: "files ?W (webp_path example_env bare_request) = Some ?F \<and> may_read ?F
     \<and> snd (writeWebp example_env fresh_response
          \<lparr>h_name = webp_path example_env bare_request, h_bytes = content ?F\<rparr>) = None"
    by (simp add: cached_world_def writeWebp_def io_Copy_def Write_def fresh_response_def)
  from cached_artifact_served_before_url_check [OF w run] f
  have "sent_status (fst ?H) = Some 200 \<and> body (fst ?H) = body fresh_response @ content ?F"
    by blast
  with u w show ?thesis by (simp add: fresh_response_def)
qed

text \<open>
  C9, as stated, fails when writing to the response fails: the artifact of \<^verbatim>\<open>GET /logo\<close>
  exists and is readable, the connection does not take the bytes, and nothing of the
  artifact is served; the handler logs a warning and goes on to the check of \<^verbatim>\<open>url\<close>.
\<close>

theorem cached_artifact_not_served_counterexample:
  "files (cached_world bare_request ''RIFF0000WEBPVP8 '') (webp_path example_env bare_request)
     = Some \<lparr>content = ''RIFF0000WEBPVP8 '', may_read = True, may_write = True\<rparr>
   \<and> body (fst (handler example_env example_origin (fresh_response\<lparr>conn_ok := False\<rparr>) bare_request
        (newStore ''/cache'') (cached_world bare_request ''RIFF0000WEBPVP8 ''))) = []
   \<and> trace (snd (snd (handler example_env example_origin (fresh_response\<lparr>conn_ok := False\<rparr>) bare_request
        (newStore ''/cache'') (cached_world bare_request ''RIFF0000WEBPVP8 ''))))
       = [RLock 0, RUnlock 0, Printf WARN ''write: broken pipe'']"
  by (simp add: model_defs example_defs canon Let_def)

subsection \<open>Requests sharing a key\<close>

text \<open>
  C2. The key is to tell apart requests that differ in path or query. Line 122 hashes
  \<^verbatim>\<open>r.URL.Path + r.URL.RawQuery\<close> with nothing between the two, so
  \<^verbatim>\<open>GET /w=1&?url=/a.png\<close> and \<^verbatim>\<open>GET /?w=1&url=/a.png\<close>, two different pairs of path and query,
  hash the same bytes \<^verbatim>\<open>/w=1&url=/a.png\<close> and share one cache file, with no digest collision.
  On an empty cache the first is answered with the image at its own width and the second
  at width 1. Once either has been served, the other is answered from the cache with the
  artifact made for the first one: the lookup returns what the miss path would not compute
  for the same request.
\<close>

theorem colliding_key_serves_other_artifact:
  "URL crafted_request \<noteq> URL resize_request
   \<and> webp_path resize_env crafted_request = webp_path resize_env resize_request
   \<and> body (fst (handler resize_env example_origin fresh_response resize_request
         (newStore ''/cache'') empty_world)) = ''RIFF0000WEBPVP8 w=1''
   \<and> body (fst (handler resize_env example_origin fresh_response crafted_request
         (newStore ''/cache'') empty_world)) = ''RIFF0000WEBPVP8 w=0''
   \<and> (case handler resize_env example_origin fresh_response crafted_request
              (newStore ''/cache'') empty_world of
         (rw1, cache1, w1) \<Rightarrow>
           (case handler resize_env example_origin fresh_response resize_request cache1 w1 of
              (rw2, cache2, w2) \<Rightarrow> (sent_status rw2, body rw2, new_events w1 w2)))
       = (Some 200, ''RIFF0000WEBPVP8 w=0'', [RLock 0, RUnlock 0])
   \<and> (case handler resize_env example_origin fresh_response resize_request
              (newStore ''/cache'') empty_world of
         (rw1, cache1, w1) \<Rightarrow>
           (case handler resize_env example_origin fresh_response crafted_request cache1 w1 of
              (rw2, cache2, w2) \<Rightarrow> (sent_status rw2, body rw2, new_events w1 w2)))
       = (Some 200, ''RIFF0000WEBPVP8 w=1'', [RLock 0, RUnlock 0])"
  by (simp add: model_defs example_defs canon Let_def fingerprint_def resize_env_def
      resize_request_def crafted_request_def sent_status_def new_events_def)

subsection \<open>Requests without url\<close>

text \<open>
  C4, as the code has it. A request whose \<^verbatim>\<open>url\<close> parameter is absent or empty changes no
  file, fetches nothing from the origin, opens no scratch file and runs no tool. It is
  answered with status 400 when the cache holds no readable artifact for it (and nothing
  is written to the response yet).
\<close>

theorem missing_url_no_side_effects:
  assumes "Values_Get (ParseQuery env (RawQuery (URL r))) ''url'' = []"
    and "handler env originalURL rw r cache w = (rw', cache', w')"
  shows "files w' = files w
     \<and> (\<forall>u. ClientGet u \<in> set (trace w') \<longrightarrow> ClientGet u \<in> set (trace w))
     \<and> (\<forall>name. OpenFile name \<in> set (trace w') \<longrightarrow> OpenFile name \<in> set (trace w))
     \<and> (\<forall>prog args. Exec prog args \<in> set (trace w') \<longrightarrow> Exec prog args \<in> set (trace w))
     \<and> ((\<forall>f. files w (webp_path env r) = Some f \<longrightarrow> \<not> may_read f) \<longrightarrow> wrote rw = None
          \<longrightarrow> sent_status rw' = Some 400)"
proof (cases "os_Open (files w) (webp_path env r)")
  case (Inl e)
  from handler_lookup_failed [OF Inl, of originalURL rw cache] assms
  have "rw' = http_Error env rw ''query `url` is emptry'' 400"
    and "w' = w\<lparr>trace := trace w @ [RLock (fst (mutex_of (webp_path env r) cache)),
                              RUnlock (fst (mutex_of (webp_path env r) cache))]\<rparr>"
    by (simp_all add: handler_miss_no_url)
  then show ?thesis by (simp add: http_Error_status)
next
  case (Inr h)
  then obtain f where f: "files w (webp_path env r) = Some f" "may_read f"
    and h: "h = \<lparr>h_name = webp_path env r, h_bytes = content f\<rparr>"
    by (auto simp: os_Open_def split: option.splits if_splits)
  obtain rw1 res where c: "writeWebp env rw \<lparr>h_name = webp_path env r, h_bytes = content f\<rparr> = (rw1, res)"
    by (cases "writeWebp env rw \<lparr>h_name = webp_path env r, h_bytes = content f\<rparr>")
  show ?thesis
  proof (cases res)
    case None
    from handler_hit [OF f c [unfolded None], of originalURL cache] assms(2)
    have "w' = w\<lparr>trace := trace w @ [RLock (fst (mutex_of (webp_path env r) cache)),
                              RUnlock (fst (mutex_of (webp_path env r) cache))]\<rparr>"
      by simp
    then show ?thesis using f by simp
  next
    case (Some err)
    from handler_hit_copy_failed [OF f c [unfolded Some], of originalURL cache] assms
    have "w' = w\<lparr>trace := trace w @ [RLock (fst (mutex_of (webp_path env r) cache)),
                              RUnlock (fst (mutex_of (webp_path env r) cache)),
                              Printf WARN err]\<rparr>"
      by (simp add: handler_miss_no_url)
    then show ?thesis using f by simp
  qed
qed

theorem missing_url_no_side_effects_witness:
  "Values_Get (ParseQuery example_env (RawQuery (URL bare_request))) ''url'' = []
   \<and> files (snd (snd (handler example_env example_origin fresh_response bare_request
        (newStore ''/cache'') empty_world))) = files empty_world
   \<and> sent_status (fst (handler example_env example_origin fresh_response bare_request
        (newStore ''/cache'') empty_world)) = Some 400"
proof -
  let ?H = "handler example_env example_origin fresh_response bare_request (newStore ''/cache'') empty_world"
  have u: "Values_Get (ParseQuery example_env (RawQuery (URL bare_request))) ''url'' = []"
    by (simp add: Values_Get_def example_env_def bare_request_def)
  have run: "?H = (fst ?H, fst (snd ?H), snd (snd ?H))" by simp
  have n: "\<forall>f. files empty_world (webp_path example_env bare_request) = Some f \<longrightarrow> \<not> may_read f"
    by (simp add: empty_world_def)
  have w: "wrote fresh_response = None" by (simp add: fresh_response_def)
  from missing_url_no_side_effects [OF u run] n w
  have "files (snd (snd ?H)) = files empty_world" and "sent_status (fst ?H) = Some 400"
    by blast+
  with u show ?thesis by simp
qed

text \<open>
  C4, as stated, fails on a cache hit: \<^verbatim>\<open>GET /logo\<close> has no \<^verbatim>\<open>url\<close> parameter, its artifact is
  in the cache, and the answer is status 200 with the artifact, not 400.
\<close>

theorem missing_url_cache_hit_counterexample:
  "Values_Get (ParseQuery example_env (RawQuery (URL bare_request))) ''url'' = []
   \<and> sent_status (fst (handler example_env example_origin fresh_response bare_request
        (newStore ''/cache'') (cached_world bare_request ''RIFF0000WEBPVP8 ''))) = Some 200
   \<and> body (fst (handler example_env example_origin fresh_response bare_request
        (newStore ''/cache'') (cached_world bare_request ''RIFF0000WEBPVP8 ''))) = ''RIFF0000WEBPVP8 ''"
  by (simp add: model_defs example_defs canon Let_def sent_status_def)

subsection \<open>The miss path\<close>

text \<open>
  C5. Every origin fetch of the handler asks for the URL made of the scheme and the host
  of the configured origin and of the \<^verbatim>\<open>url\<close> parameter as path, with an empty query: nothing
  else of the request goes into it. On a failed lookup with a non-empty \<^verbatim>\<open>url\<close> parameter
  this fetch is made.
\<close>

theorem origin_url_from_url_param:
  assumes "handler env originalURL rw r cache w = (rw', cache', w')"
  shows "(\<forall>u. ClientGet u \<in> set (new_events w w') \<longrightarrow>
            u = URL_String env \<lparr>Scheme = Scheme originalURL, Host = Host originalURL,
                                Path = Values_Get (ParseQuery env (RawQuery (URL r))) ''url'',
                                RawQuery = []\<rparr>)
     \<and> ((\<exists>e. os_Open (files w) (webp_path env r) = Inl e)
          \<and> Values_Get (ParseQuery env (RawQuery (URL r))) ''url'' \<noteq> []
        \<longrightarrow> ClientGet (URL_String env \<lparr>Scheme = Scheme originalURL, Host = Host originalURL,
                                Path = Values_Get (ParseQuery env (RawQuery (URL r))) ''url'',
                                RawQuery = []\<rparr>) \<in> set (new_events w w'))"
proof -
  from handler_events [OF assms] obtain evs where
    e: "trace w' = trace w @ evs" "\<forall>u. ClientGet u \<in> set evs \<longrightarrow> u = full_url env originalURL r"
    by blast
  have a: "\<forall>u. ClientGet u \<in> set (new_events w w') \<longrightarrow> u = full_url env originalURL r"
    using e new_events_append [OF e(1)] by simp
  have b: "ClientGet (full_url env originalURL r) \<in> set (new_events w w')"
    if miss: "os_Open (files w) (webp_path env r) = Inl e0" and url: "url_param env r \<noteq> []" for e0
  proof -
    let ?w1 = "w\<lparr>trace := trace w @ [RLock (fst (mutex_of (webp_path env r) cache)),
                              RUnlock (fst (mutex_of (webp_path env r) cache))]\<rparr>"
    from handler_lookup_failed [OF miss, of originalURL rw cache] assms
    have m: "handler_miss env originalURL r (fingerprint (Path (URL r)) (RawQuery (URL r)))
       (webp_path env r) rw (snd (mutex_of (webp_path env r) cache)) ?w1 = (rw', cache', w')"
      by simp
    from handler_miss_fetches [OF url m] obtain tl where
      "trace w' = trace w @ ([RLock (fst (mutex_of (webp_path env r) cache)),
                              RUnlock (fst (mutex_of (webp_path env r) cache)),
                              ClientGet (full_url env originalURL r)] @ tl)"
      by auto
    from new_events_append [OF this] show ?thesis by simp
  qed
  from a b show ?thesis
    unfolding full_url_def url_param_def by blast
qed

theorem origin_url_from_url_param_witness:
  "(\<exists>e. os_Open (files empty_world) (webp_path example_env example_request) = Inl e)
   \<and> Values_Get (ParseQuery example_env (RawQuery (URL example_request))) ''url'' \<noteq> []
   \<and> ClientGet ''https://img.example/a.png''
       \<in> set (new_events empty_world (snd (snd (handler example_env example_origin fresh_response
            example_request (newStore ''/cache'') empty_world))))"
proof -
  let ?H = "handler example_env example_origin fresh_response example_request (newStore ''/cache'') empty_world"
  have m: "\<exists>e. os_Open (files empty_world) (webp_path example_env example_request) = Inl e"
    using example_miss by blast
  have u: "Values_Get (ParseQuery example_env (RawQuery (URL example_request))) ''url'' \<noteq> []"
    by (simp add: example_url)
  have run: "?H = (fst ?H, fst (snd ?H), snd (snd ?H))" by simp
  from origin_url_from_url_param [OF run] m u
  have "ClientGet (URL_String example_env \<lparr>Scheme = Scheme example_origin, Host = Host example_origin,
          Path = Values_Get (ParseQuery example_env (RawQuery (URL example_request))) ''url'',
          RawQuery = []\<rparr>) \<in> set (new_events empty_world (snd (snd ?H)))"
    by blast
  then have "ClientGet ''https://img.example/a.png'' \<in> set (new_events empty_world (snd (snd ?H)))"
    unfolding example_url by (simp add: example_env_def example_origin_def)
  with m u show ?thesis by blast
qed

text \<open>
  C6, as the code has it. After a failed lookup, with \<^verbatim>\<open>url\<close> given, the request reaches
  the run of \<^verbatim>\<open>cwebp\<close> exactly when \<^verbatim>\<open>client.Get\<close> returns a response, the scratch file opens
  and the body is copied without error; when it does not, the answer is status 500 (on a
  response nothing is written to yet). When it
  does, \<^verbatim>\<open>cwebp\<close> runs on a file system whose scratch file starts with the whole body. The
  status code of the origin is never read: replacing it by any other changes nothing.
\<close>

theorem fetch_step_outcomes:
  assumes miss: "os_Open (files w) (webp_path env r) = Inl e0"
    and url: "Values_Get (ParseQuery env (RawQuery (URL r))) ''url'' \<noteq> []"
    and fresh: "wrote rw = None"
    and run: "handler env originalURL rw r cache w = (rw', cache', w')"
  shows "((\<exists>args. Exec ''cwebp'' args \<in> set (new_events w w')) \<longleftrightarrow>
            (\<exists>res fs. client_Get env (full_url env originalURL r) = Inr res
               \<and> os_OpenFile (can_create env) (files w) (orig_path env r) = Inr fs
               \<and> BodyErr res = None))
     \<and> ((\<forall>args. Exec ''cwebp'' args \<notin> set (new_events w w')) \<longrightarrow> sent_status rw' = Some 500)
     \<and> (\<forall>res fs. client_Get env (full_url env originalURL r) = Inr res
               \<and> os_OpenFile (can_create env) (files w) (orig_path env r) = Inr fs
               \<and> BodyErr res = None
          \<longrightarrow> (\<exists>f. write_from_start (orig_path env r) (Body res) fs (orig_path env r) = Some f
                   \<and> take (length (Body res)) (content f) = Body res)
              \<and> files w' = snd (cwebp env (transform_args env r)
                               (write_from_start (orig_path env r) (Body res) fs)))
     \<and> handler (env\<lparr>client_Get := \<lambda>u. map_sum id (\<lambda>res. res\<lparr>StatusCode := code\<rparr>) (client_Get env u)\<rparr>)
          originalURL rw r cache w
        = handler env originalURL rw r cache w"
proof -
  have u: "url_param env r \<noteq> []" using url by (simp add: url_param_def)
  note c = handler_fetch_cases [OF miss u run]
  have a: "(\<exists>args. Exec ''cwebp'' args \<in> set (new_events w w')) \<longleftrightarrow>
            (\<exists>res fs. client_Get env (full_url env originalURL r) = Inr res
               \<and> os_OpenFile (can_create env) (files w) (orig_path env r) = Inr fs
               \<and> BodyErr res = None)"
    using c by (elim disjE exE conjE) auto
  have b: "(\<forall>args. Exec ''cwebp'' args \<notin> set (new_events w w')) \<longrightarrow> sent_status rw' = Some 500"
    using c by (elim disjE exE conjE) (auto simp: http_Error_status [OF fresh])
  have d: "\<forall>res fs. client_Get env (full_url env originalURL r) = Inr res
               \<and> os_OpenFile (can_create env) (files w) (orig_path env r) = Inr fs
               \<and> BodyErr res = None
          \<longrightarrow> (\<exists>f. write_from_start (orig_path env r) (Body res) fs (orig_path env r) = Some f
                   \<and> take (length (Body res)) (content f) = Body res)
              \<and> files w' = snd (cwebp env (transform_args env r)
                               (write_from_start (orig_path env r) (Body res) fs))"
  proof (intro allI impI)
    fix res fs
    assume h: "client_Get env (full_url env originalURL r) = Inr res
               \<and> os_OpenFile (can_create env) (files w) (orig_path env r) = Inr fs
               \<and> BodyErr res = None"
    then have "files w' = snd (cwebp env (transform_args env r)
                               (write_from_start (orig_path env r) (Body res) fs))"
      using c by (elim disjE exE conjE) auto
    with h scratch_holds_body [of "can_create env" "files w" "orig_path env r" fs "Body res"]
    show "(\<exists>f. write_from_start (orig_path env r) (Body res) fs (orig_path env r) = Some f
                   \<and> take (length (Body res)) (content f) = Body res)
              \<and> files w' = snd (cwebp env (transform_args env r)
                               (write_from_start (orig_path env r) (Body res) fs))"
      by blast
  qed
  note s = status_code_unread [where env = env and code = code and originalURL = originalURL
      and rw = rw and r = r and cache = cache and w = w]
  show ?thesis
    by (intro conjI) (fact a, fact b, fact d, fact s)
qed

text \<open>
  The origin answers 404, and its error page is stored and given to \<^verbatim>\<open>cwebp\<close>.
\<close>

theorem fetch_step_outcomes_witness:
  "(\<exists>e. os_Open (files empty_world) (webp_path example_env example_request) = Inl e)
   \<and> Values_Get (ParseQuery example_env (RawQuery (URL example_request))) ''url'' \<noteq> []
   \<and> wrote fresh_response = None
   \<and> client_Get example_env (full_url example_env example_origin example_request)
       = Inr \<lparr>StatusCode = 404, Body = ''404 page not found'', BodyErr = None\<rparr>
   \<and> (\<exists>args. Exec ''cwebp'' args
         \<in> set (new_events empty_world (snd (snd (handler example_env example_origin fresh_response
              example_request (newStore ''/cache'') empty_world)))))
   \<and> files (snd (snd (handler example_env example_origin fresh_response example_request
        (newStore ''/cache'') empty_world))) (orig_path example_env example_request)
       = Some \<lparr>content = ''404 page not found'', may_read = True, may_write = True\<rparr>"
proof -
  let ?H = "handler example_env example_origin fresh_response example_request (newStore ''/cache'') empty_world"
  let ?R = "\<lparr>StatusCode = 404, Body = ''404 page not found'', BodyErr = None\<rparr>"
  let ?FS = "[orig_path example_env example_request \<mapsto> \<lparr>content = [], may_read = True, may_write = True\<rparr>]"
  have u: "Values_Get (ParseQuery example_env (RawQuery (URL example_request))) ''url'' \<noteq> []"
    by (simp add: example_url)
  have w: "wrote fresh_response = None" by (simp add: fresh_response_def)
  have run: "?H = (fst ?H, fst (snd ?H), snd (snd ?H))" by simp
  have g: "client_Get example_env (full_url example_env example_origin example_request) = Inr ?R"
    by (simp add: example_env_def)
  have o: "os_OpenFile (can_create example_env) (files empty_world) (orig_path example_env example_request)
     = Inr ?FS"
    by (simp add: os_OpenFile_def empty_world_def example_env_def)
  have b: "BodyErr ?R = None" by simp
  note t = fetch_step_outcomes [OF example_miss u w run]
  from t g o b have e: "\<exists>args. Exec ''cwebp'' args \<in> set (new_events empty_world (snd (snd ?H)))"
    by blast
  from t g o b have "files (snd (snd ?H))
     = snd (cwebp example_env (transform_args example_env example_request)
         (write_from_start (orig_path example_env example_request) (Body ?R) ?FS))"
    by blast
  then have f: "files (snd (snd ?H)) (orig_path example_env example_request)
       = Some \<lparr>content = ''404 page not found'', may_read = True, may_write = True\<rparr>"
    by (simp add: example_env_def transform_args_def cwebp_args_def write_from_start_def
        orig_path_def webp_path_def url_param_def Values_Get_def example_request_def filepath_Ext_def)
  from example_miss u w g e f show ?thesis by blast
qed

text \<open>
  C6, as stated, fails when a response is received and the scratch file cannot be
  created (lines 170-175): the answer is status 500, no scratch file is written and
  \<^verbatim>\<open>cwebp\<close> is not run, without any failure of the transport.
\<close>

theorem fetch_step_scratch_counterexample:
  "client_Get (example_env\<lparr>can_create := \<lambda>name. False\<rparr>) ''https://img.example/a.png''
     = Inr \<lparr>StatusCode = 404, Body = ''404 page not found'', BodyErr = None\<rparr>
   \<and> sent_status (fst (handler (example_env\<lparr>can_create := \<lambda>name. False\<rparr>) example_origin
        fresh_response example_request (newStore ''/cache'') empty_world)) = Some 500
   \<and> files (snd (snd (handler (example_env\<lparr>can_create := \<lambda>name. False\<rparr>) example_origin
        fresh_response example_request (newStore ''/cache'') empty_world)))
       (orig_path (example_env\<lparr>can_create := \<lambda>name. False\<rparr>) example_request) = None
   \<and> trace (snd (snd (handler (example_env\<lparr>can_create := \<lambda>name. False\<rparr>) example_origin
        fresh_response example_request (newStore ''/cache'') empty_world)))
       = [RLock 0, RUnlock 0, ClientGet ''https://img.example/a.png'',
          OpenFile (''/cache/'' @ fingerprint ''/'' ''url=/a.png'' @ ''.png''),
          Printf ERRO (''open /cache/'' @ fingerprint ''/'' ''url=/a.png'' @ ''.png: no such file or directory'')]"
  by (simp add: model_defs example_defs canon Let_def sent_status_def view_defs)

text \<open>
  C10. Every run of the tool is \<^verbatim>\<open>cwebp -quiet -q q -resize w h origPath -o webpPath\<close>, with
  \<^verbatim>\<open>q\<close> the value of the \<^verbatim>\<open>q\<close> parameter as it is. When \<^verbatim>\<open>q\<close> is absent the argument after
  \<^verbatim>\<open>-q\<close> is the empty string; an absent \<^verbatim>\<open>w\<close> or \<^verbatim>\<open>h\<close> is passed as \<^verbatim>\<open>0\<close>.
\<close>

theorem quality_passed_verbatim:
  assumes "handler env originalURL rw r cache w = (rw', cache', w')"
  shows "\<forall>prog args. Exec prog args \<in> set (new_events w w') \<longrightarrow>
           prog = ''cwebp''
           \<and> args = [''-quiet'', ''-q'', Values_Get (ParseQuery env (RawQuery (URL r))) ''q'',
                     ''-resize'', param_or_zero env r ''w'', param_or_zero env r ''h'',
                     orig_path env r, ''-o'', webp_path env r]
           \<and> (ParseQuery env (RawQuery (URL r)) ''q'' = None \<longrightarrow> args ! 2 = [])
           \<and> (ParseQuery env (RawQuery (URL r)) ''w'' = None \<longrightarrow> args ! 4 = ''0'')
           \<and> (ParseQuery env (RawQuery (URL r)) ''h'' = None \<longrightarrow> args ! 5 = ''0'')"
proof (intro allI impI)
  fix prog args
  assume x: "Exec prog args \<in> set (new_events w w')"
  from handler_events [OF assms] obtain evs where
    e: "trace w' = trace w @ evs"
      "\<forall>prog args. Exec prog args \<in> set evs \<longrightarrow> prog = ''cwebp'' \<and> args = transform_args env r"
    by blast
  from x e new_events_append [OF e(1)]
  have p: "prog = ''cwebp''" and a: "args = transform_args env r" by auto
  have l: "transform_args env r = [''-quiet'', ''-q'', Values_Get (ParseQuery env (RawQuery (URL r))) ''q'',
                     ''-resize'', param_or_zero env r ''w'', param_or_zero env r ''h'',
                     orig_path env r, ''-o'', webp_path env r]"
    by (simp add: transform_args_def cwebp_args_def)
  show "prog = ''cwebp''
           \<and> args = [''-quiet'', ''-q'', Values_Get (ParseQuery env (RawQuery (URL r))) ''q'',
                     ''-resize'', param_or_zero env r ''w'', param_or_zero env r ''h'',
                     orig_path env r, ''-o'', webp_path env r]
           \<and> (ParseQuery env (RawQuery (URL r)) ''q'' = None \<longrightarrow> args ! 2 = [])
           \<and> (ParseQuery env (RawQuery (URL r)) ''w'' = None \<longrightarrow> args ! 4 = ''0'')
           \<and> (ParseQuery env (RawQuery (URL r)) ''h'' = None \<longrightarrow> args ! 5 = ''0'')"
    unfolding a l using p by (simp add: Values_Get_def param_or_zero_def)
qed

theorem quality_passed_verbatim_witness:
  "ParseQuery example_env (RawQuery (URL example_request)) ''q'' = None
   \<and> Exec ''cwebp'' [''-quiet'', ''-q'', [], ''-resize'', ''0'', ''0'',
          ''/cache/'' @ fingerprint ''/'' ''url=/a.png'' @ ''.png'', ''-o'',
          ''/cache/'' @ fingerprint ''/'' ''url=/a.png'' @ ''.webp'']
       \<in> set (new_events empty_world (snd (snd (handler example_env example_origin fresh_response
            example_request (newStore ''/cache'') empty_world))))
   \<and> [''-quiet'', ''-q'', [], ''-resize'', ''0'', ''0'',
          ''/cache/'' @ fingerprint ''/'' ''url=/a.png'' @ ''.png'', ''-o'',
          ''/cache/'' @ fingerprint ''/'' ''url=/a.png'' @ ''.webp''] ! 2 = []"
proof -
  let ?H = "handler example_env example_origin fresh_response example_request (newStore ''/cache'') empty_world"
  let ?A = "[''-quiet'', ''-q'', [], ''-resize'', ''0'', ''0'',
          ''/cache/'' @ fingerprint ''/'' ''url=/a.png'' @ ''.png'', ''-o'',
          ''/cache/'' @ fingerprint ''/'' ''url=/a.png'' @ ''.webp'']"
  have q: "ParseQuery example_env (RawQuery (URL example_request)) ''q'' = None"
    by (simp add: example_env_def example_request_def)
  have x: "Exec ''cwebp'' ?A \<in> set (new_events empty_world (snd (snd ?H)))"
    unfolding example_new_events by simp
  have run: "?H = (fst ?H, fst (snd ?H), snd (snd ?H))" by simp
  from quality_passed_verbatim [OF run] x q have "?A ! 2 = []"
    by blast
  with q x show ?thesis by blast
qed

end
